theory Spec2Isabelle
  imports Main "HOL-Library.AList"
begin

section \<open>Go library functions used by the parser and the emitter\<close>

text \<open>
  A Go \<open>string\<close> is a sequence of bytes, here a \<open>char list\<close>. A \<open>rune\<close> is a code
  point, here a natural number; \<open>rune c\<close> is the code point of the ASCII byte \<open>c\<close>.
  The sentinel \<open>eof\<close> of \<^verbatim>\<open>parse.go\<close> is the rune 0.
\<close>

type_synonym rune = nat

abbreviation rune :: "char \<Rightarrow> rune" where
  "rune c \<equiv> of_char c"

definition eof :: rune where
  "eof = 0"

text \<open>\<^verbatim>\<open>string(r)\<close> for a rune below 0x80, as \<^verbatim>\<open>scanValue\<close> and \<^verbatim>\<open>scanNumber\<close> use it.\<close>

definition byte_string :: "rune \<Rightarrow> string" where
  "byte_string r = [char_of r]"

text \<open>The character classes of the repository.\<close>

definition isDigit :: "rune \<Rightarrow> bool" where
  "isDigit r = (rune CHR ''0'' \<le> r \<and> r \<le> rune CHR ''9'')"

definition isHex :: "rune \<Rightarrow> bool" where
  "isHex r = ((rune CHR ''A'' \<le> r \<and> r \<le> rune CHR ''Z'')
            \<or> (rune CHR ''a'' \<le> r \<and> r \<le> rune CHR ''z'')
            \<or> (rune CHR ''0'' \<le> r \<and> r \<le> rune CHR ''9''))"

definition isSpace :: "rune \<Rightarrow> bool" where
  "isSpace r = (r = rune CHR '' '' \<or> r = rune (CHR 0x09))"

definition isBareKeyChar :: "rune \<Rightarrow> bool" where
  "isBareKeyChar r = ((rune CHR ''A'' \<le> r \<and> r \<le> rune CHR ''Z'')
            \<or> (rune CHR ''a'' \<le> r \<and> r \<le> rune CHR ''z'')
            \<or> (rune CHR ''0'' \<le> r \<and> r \<le> rune CHR ''9'')
            \<or> r = rune CHR ''-'' \<or> r = rune CHR ''_'')"

subsection \<open>UTF-8\<close>

text \<open>
  \<^verbatim>\<open>utf8.DecodeRuneInString\<close>: the rune at the head of the string and its width in
  bytes. An empty string gives \<open>(RuneError, 0)\<close>, an invalid encoding
  \<open>(RuneError, 1)\<close>. The accepted ranges of the second byte are those of the Go
  library (no overlong forms, no surrogates, nothing above U+10FFFF).
\<close>

definition RuneError :: rune where
  "RuneError = 0xFFFD"

definition cont_byte :: "nat \<Rightarrow> bool" where
  "cont_byte b = (0x80 \<le> b \<and> b \<le> 0xBF)"

fun DecodeRuneInString :: "string \<Rightarrow> rune \<times> nat" where
  "DecodeRuneInString [] = (RuneError, 0)"
| "DecodeRuneInString (c0 # cs) =
     (let b0 = (of_char c0 :: nat) in
      if b0 < 0x80 then (b0, 1)
      else if b0 < 0xC2 \<or> 0xF4 < b0 then (RuneError, 1)
      else (case cs of
          [] \<Rightarrow> (RuneError, 1)
        | c1 # cs1 \<Rightarrow>
          (let b1 = (of_char c1 :: nat);
               lo = (if b0 = 0xE0 then 0xA0 else if b0 = 0xF0 then 0x90 else 0x80);
               hi = (if b0 = 0xED then 0x9F else if b0 = 0xF4 then 0x8F else 0xBF) in
           if b1 < lo \<or> hi < b1 then (RuneError, 1)
           else if b0 < 0xE0 then ((b0 mod 0x20) * 0x40 + b1 mod 0x40, 2)
           else (case cs1 of
               [] \<Rightarrow> (RuneError, 1)
             | c2 # cs2 \<Rightarrow>
               (let b2 = (of_char c2 :: nat) in
                if \<not> cont_byte b2 then (RuneError, 1)
                else if b0 < 0xF0
                  then ((b0 mod 0x10) * 0x1000 + (b1 mod 0x40) * 0x40 + b2 mod 0x40, 3)
                else (case cs2 of
                    [] \<Rightarrow> (RuneError, 1)
                  | c3 # cs3 \<Rightarrow>
                    (let b3 = (of_char c3 :: nat) in
                     if \<not> cont_byte b3 then (RuneError, 1)
                     else ((b0 mod 0x08) * 0x40000 + (b1 mod 0x40) * 0x1000
                             + (b2 mod 0x40) * 0x40 + b3 mod 0x40, 4))))))))"

text \<open>\<^verbatim>\<open>utf8.ValidRune\<close> and \<^verbatim>\<open>string(r)\<close> for a valid rune (its UTF-8 encoding).\<close>

definition ValidRune :: "rune \<Rightarrow> bool" where
  "ValidRune r = (r < 0xD800 \<or> (0xE000 \<le> r \<and> r \<le> 0x10FFFF))"

definition EncodeRune :: "rune \<Rightarrow> string" where
  "EncodeRune r =
     (if r < 0x80 then [char_of r]
      else if r < 0x800 then [char_of (0xC0 + r div 0x40), char_of (0x80 + r mod 0x40)]
      else if r < 0x10000 then
        [char_of (0xE0 + r div 0x1000), char_of (0x80 + (r div 0x40) mod 0x40),
         char_of (0x80 + r mod 0x40)]
      else
        [char_of (0xF0 + r div 0x40000), char_of (0x80 + (r div 0x1000) mod 0x40),
         char_of (0x80 + (r div 0x40) mod 0x40), char_of (0x80 + r mod 0x40)])"

subsection \<open>Numbers\<close>

text \<open>
  \<^verbatim>\<open>strconv.ParseInt(s, 10, 64)\<close>: an optional sign and a non-empty run of decimal
  digits; a value outside the signed 64-bit range is a range error.
\<close>

datatype NumError = ErrSyntax | ErrRange

definition digit_val :: "char \<Rightarrow> nat" where
  "digit_val c = of_char c - 48"

definition dec_val :: "string \<Rightarrow> nat" where
  "dec_val s = foldl (\<lambda>n c. 10 * n + digit_val c) 0 s"

definition ParseInt :: "string \<Rightarrow> NumError + int" where
  "ParseInt s =
     (let neg = (s \<noteq> [] \<and> hd s = CHR ''-'');
          ds = (if s \<noteq> [] \<and> (hd s = CHR ''+'' \<or> hd s = CHR ''-'') then tl s else s) in
      if ds = [] then Inl ErrSyntax
      else if \<not> list_all (\<lambda>c. isDigit (rune c)) ds then Inl ErrSyntax
      else if \<not> neg \<and> 2 ^ 63 \<le> dec_val ds then Inl ErrRange
      else if neg \<and> 2 ^ 63 < dec_val ds then Inl ErrRange
      else Inr (if neg then - int (dec_val ds) else int (dec_val ds)))"

text \<open>
  \<^verbatim>\<open>strconv.ParseUint(s, 16, 64)\<close> on the four or eight bytes that
  \<^verbatim>\<open>scanUnicodeRune\<close> passes: a byte that is no hexadecimal digit is a syntax error.
\<close>

definition hex_val :: "char \<Rightarrow> nat option" where
  "hex_val c =
     (let b = (of_char c :: nat) in
      if 48 \<le> b \<and> b \<le> 57 then Some (b - 48)
      else if 97 \<le> b \<and> b \<le> 102 then Some (b - 87)
      else if 65 \<le> b \<and> b \<le> 70 then Some (b - 55)
      else None)"

fun ParseUint16 :: "nat \<Rightarrow> string \<Rightarrow> nat option" where
  "ParseUint16 acc [] = Some acc"
| "ParseUint16 acc (c # cs) =
     (case hex_val c of None \<Rightarrow> None | Some d \<Rightarrow> ParseUint16 (16 * acc + d) cs)"

text \<open>\<^verbatim>\<open>strconv.FormatInt(i, 10)\<close> and the \<^verbatim>\<open>%d\<close> of \<^verbatim>\<open>fmt.Sprintf\<close>.\<close>

fun format_nat :: "nat \<Rightarrow> string" where
  "format_nat n =
     (if n < 10 then [char_of (48 + n)] else format_nat (n div 10) @ [char_of (48 + n mod 10)])"

declare format_nat.simps [simp del]

definition FormatInt :: "int \<Rightarrow> string" where
  "FormatInt i = (if i < 0 then CHR ''-'' # format_nat (nat (- i)) else format_nat (nat i))"

text \<open>
  The library functions on floats, instants and quoting are not part of the repository;
  they are parameters of the model. \<open>None\<close> is the library's error return.
\<close>

typedecl float64
typedecl time

record golib =
  ParseFloat :: "string \<Rightarrow> float64 option"   \<comment> \<open>\<^verbatim>\<open>strconv.ParseFloat(s, 64)\<close>\<close>
  FormatFloat :: "float64 \<Rightarrow> string"         \<comment> \<open>\<^verbatim>\<open>strconv.FormatFloat(f, 'g', -1, 64)\<close>\<close>
  TimeParse :: "string \<Rightarrow> time option"       \<comment> \<open>\<^verbatim>\<open>time.Parse(time.RFC3339Nano, s)\<close>\<close>
  TimeFormat :: "time \<Rightarrow> string"             \<comment> \<open>\<^verbatim>\<open>t.Format(time.RFC3339Nano)\<close>\<close>
  Quote :: "string \<Rightarrow> string"                \<comment> \<open>\<^verbatim>\<open>strconv.Quote\<close>\<close>
  IsPrint :: "rune \<Rightarrow> bool"                  \<comment> \<open>\<^verbatim>\<open>strconv.IsPrint\<close>\<close>

section \<open>Data model\<close>

text \<open>
  The values of \<^verbatim>\<open>internal/types\<close>. An \<open>Array\<close> carries its \<open>Closed\<close> flag and its
  elements; a \<open>Table\<close> carries its \<open>Implicit\<close> flag and its elements, a Go map, here an
  association list with distinct keys that is read with \<open>map_of\<close> and written with
  \<open>AList.update\<close>.
\<close>

datatype val =
    Boolean bool
  | Integer int
  | Float float64
  | String string
  | Datetime time
  | Array bool "val list"
  | Table bool "(string \<times> val) list"

fun Type :: "val \<Rightarrow> string" where
  "Type (Table _ _) = ''table''"
| "Type (Array _ _) = ''array''"
| "Type (String _) = ''string''"
| "Type (Integer _) = ''integer''"
| "Type (Float _) = ''float''"
| "Type (Boolean _) = ''boolean''"
| "Type (Datetime _) = ''datetime''"

text \<open>
  The errors of the parser. \<open>reason\<close> is the wrapped \<^verbatim>\<open>Err\<close> of a \<^verbatim>\<open>ParseError\<close>, one
  constructor for each message format of \<^verbatim>\<open>parse.go\<close>, with the arguments of the format.
  \<open>GoPanic\<close> is a panic that \<^verbatim>\<open>errRecover\<close> panics again (a \<^verbatim>\<open>runtime.Error\<close> such as
  an index out of range or a failed type assertion, or a panic with a string).
\<close>

datatype reason =
    Msg string                       \<comment> \<open>a fixed message\<close>
  | Expect string rune               \<comment> \<open>\<^verbatim>\<open>expect %s, got %s\<close>\<close>
  | ExpectRune rune rune             \<comment> \<open>\<^verbatim>\<open>expect %q, got %s\<close>\<close>
  | InvalidUtf8                      \<comment> \<open>\<^verbatim>\<open>invalid utf8 rune\<close>\<close>
  | NotValidRune string              \<comment> \<open>\<^verbatim>\<open>%s is not a valid utf8 rune\<close>\<close>
  | KeyDefined string string string  \<comment> \<open>\<^verbatim>\<open>table %s has key %s defined as %s\<close>\<close>
  | ArrayExpects string string string \<comment> \<open>\<^verbatim>\<open>array %s expects element type %s, but got %s\<close>\<close>
  | LeadingZero string               \<comment> \<open>\<^verbatim>\<open>leading zero in integer %q\<close>\<close>
  | IntError NumError string         \<comment> \<open>the error of \<^verbatim>\<open>strconv.ParseInt\<close>\<close>
  | UintError string                 \<comment> \<open>the error of \<^verbatim>\<open>strconv.ParseUint\<close>\<close>
  | FloatError string                \<comment> \<open>the error of \<^verbatim>\<open>strconv.ParseFloat\<close>\<close>
  | TimeError string                 \<comment> \<open>the error of \<^verbatim>\<open>time.Parse\<close>\<close>
  | DefinedAs string string          \<comment> \<open>\<^verbatim>\<open>%s was defined as %s\<close>\<close>
  | DefinedTwice string              \<comment> \<open>\<^verbatim>\<open>table %s was defined twice\<close>\<close>

datatype failure =
    ParseError (Line: nat) (Pos: nat) (Err: reason)
  | GoPanic

text \<open>
  The state functions. A Go closure is a constructor with the captured values:
  \<open>ScanByte r\<close> is \<^verbatim>\<open>scanByte(r)\<close>, \<open>ScanRecord n\<close> is \<^verbatim>\<open>scanRecord(n)\<close>, and
  \<open>ScanConsumeBlank\<close> is the one use of \<^verbatim>\<open>scanConsumeByte\<close>, with the predicate
  \<^verbatim>\<open>isSpace(r) || p.skipNewline(r)\<close>. The setters \<^verbatim>\<open>setStringValue\<close>,
  \<^verbatim>\<open>scanDateEnd\<close> are state functions too.
\<close>

datatype scanner =
    ScanByte rune | ScanDigit | ScanConsumeBlank | ScanRecord int
  | ScanEscapedRune | ScanLiteral | ScanMultiLineLiteral | ScanMultiLineString
  | ScanComment | ScanArrayTableEnd | ScanTableEnd | ScanTableStart | ScanString
  | ScanTableNameString | ScanTableNameStart | ScanTableNameInside | ScanTableNameEnd
  | ScanTop | ScanTopEnd | ScanInlineTableFieldEnd | ScanInlineTableStart
  | ScanFloatFraction | ScanFloatExponent | ScanFloatExponentSign | ScanNumber
  | ScanNumberStart | SetStringValue | ScanStringStart | ScanLiteralStart
  | ScanArrayValue | ScanArrayStart | ScanArrayEnd | ScanValue
  | ScanDateEnd | ScanDateTimeEnd | ScanDateTimeFraction | ScanDateTime
  | ScanNumberOrDate | ScanFieldAssign | ScanBareKey | ScanKeyEnd | ScanTableField

abbreviation scanColon :: scanner where "scanColon \<equiv> ScanByte (rune CHR '':'')"
abbreviation scanHash :: scanner where "scanHash \<equiv> ScanByte (rune CHR ''-'')"
abbreviation scanRecord0 :: scanner where "scanRecord0 \<equiv> ScanRecord 0"

text \<open>
  An environment is a pointer to a table or an array. The tree is owned by the root and
  no value is shared, so a pointer into the tree is the path that leads to it from the
  root: \<open>Field k\<close> is the value at key \<open>k\<close> of a table, \<open>Elem k i\<close> the element \<open>i\<close>
  of the array at key \<open>k\<close>. An inline table or a bracketed array under construction is
  not linked into the tree before it is closed: it is a \<open>Local\<close> object of the stack.
\<close>

datatype sel = Field string | Elem string nat

datatype envref = InRoot "sel list" | Local val

record environment =
  env :: envref
  path :: string

record numParser =
  sign :: string
  exp_e :: string      \<comment> \<open>the field \<^verbatim>\<open>e\<close>\<close>
  esign :: string
  integers :: "string list"
  fractions :: "string list"
  exponents :: "string list"

text \<open>
  The parser. The slices \<open>backups\<close>, \<open>envs\<close>, \<open>keys\<close> and \<open>scanners\<close> are used as
  stacks; their top is the head of the list. \<open>str\<close> is the \<^verbatim>\<open>parts\<close> of the
  \<^verbatim>\<open>strParser\<close>. \<open>panicked\<close> is no field of the Go structure: it holds the value of the
  first \<^verbatim>\<open>panic\<close> of the run, explicit or raised by the runtime. A panic leaves
  \<^verbatim>\<open>parse\<close> at once, so the driver stops as soon as the field is set and nothing that
  a state function computed after the panic is observed.
\<close>

record parser =
  mark :: int
  pos :: nat
  line :: nat
  input :: string
  backups :: "nat list"
  root :: val
  envs :: "environment list"
  keys :: "string list"
  names :: "string list"
  str :: "string list"
  num :: numParser
  scanners :: "scanner list"
  err :: "failure option"
  panicked :: "failure option"

definition raise :: "failure \<Rightarrow> parser \<Rightarrow> parser" where
  "raise f p = (if panicked p = None then p\<lparr>panicked := Some f\<rparr> else p)"

subsection \<open>Accumulators\<close>

definition num_reset :: "numParser \<Rightarrow> numParser" where
  "num_reset n = n\<lparr>sign := [], exp_e := [], esign := [], integers := [], fractions := [],
     exponents := []\<rparr>"

definition pushInteger :: "string \<Rightarrow> parser \<Rightarrow> parser" where
  "pushInteger part p = p\<lparr>num := (num p)\<lparr>integers := integers (num p) @ [part]\<rparr>\<rparr>"

definition pushFraction :: "string \<Rightarrow> parser \<Rightarrow> parser" where
  "pushFraction part p = p\<lparr>num := (num p)\<lparr>fractions := fractions (num p) @ [part]\<rparr>\<rparr>"

definition pushExponent :: "string \<Rightarrow> parser \<Rightarrow> parser" where
  "pushExponent part p = p\<lparr>num := (num p)\<lparr>exponents := exponents (num p) @ [part]\<rparr>\<rparr>"

text \<open>\<^verbatim>\<open>numParser.join("")\<close>, the text that \<^verbatim>\<open>Float\<close> passes to the library.\<close>

definition num_join :: "numParser \<Rightarrow> string" where
  "num_join n =
     (let s = sign n @ concat (integers n);
          s = (if fractions n \<noteq> [] then s @ ''.'' @ concat (fractions n) else s) in
      if exp_e n \<noteq> [] then s @ exp_e n @ esign n @ concat (exponents n) else s)"

text \<open>
  \<^verbatim>\<open>numParser.Integer\<close>. \<^verbatim>\<open>s[0]\<close> on an empty \<open>s\<close> is an index out of range.
\<close>

definition num_Integer :: "numParser \<Rightarrow> failure + (reason + int)" where
  "num_Integer n =
     (let s = concat (integers n) in
      if s = [] then Inl GoPanic
      else if s \<noteq> ''0'' \<and> hd s = CHR ''0'' then Inr (Inl (LeadingZero s))
      else (case ParseInt (sign n @ s) of
              Inl e \<Rightarrow> Inr (Inl (IntError e (sign n @ s)))
            | Inr i \<Rightarrow> Inr (Inr i)))"

definition str_push :: "string \<Rightarrow> parser \<Rightarrow> parser" where
  "str_push s p = (if s \<noteq> [] then p\<lparr>str := str p @ [s]\<rparr> else p)"

text \<open>\<^verbatim>\<open>strParser.join\<close>: the joined parts, and the parser with the parts reset.\<close>

definition str_join :: "parser \<Rightarrow> string \<times> parser" where
  "str_join p = (concat (str p), p\<lparr>str := []\<rparr>)"

section \<open>Scanner engine\<close>

definition pushScanner :: "scanner \<Rightarrow> parser \<Rightarrow> parser" where
  "pushScanner s p = p\<lparr>scanners := s # scanners p\<rparr>"

text \<open>\<^verbatim>\<open>popScanner\<close>; on an empty stack the index is out of range.\<close>

definition popScanner :: "parser \<Rightarrow> scanner option \<times> parser" where
  "popScanner p =
     (case scanners p of
        [] \<Rightarrow> (None, raise GoPanic p)
      | s # ss \<Rightarrow> (Some s, p\<lparr>scanners := ss\<rparr>))"

text \<open>
  \<^verbatim>\<open>seqScanner\<close> pushes the sequence in reverse and pops its first member.
\<close>

definition seqScanner :: "scanner list \<Rightarrow> parser \<Rightarrow> scanner option \<times> parser" where
  "seqScanner seqs p =
     (if seqs = [] then (None, raise GoPanic p)
      else popScanner (p\<lparr>scanners := seqs @ scanners p\<rparr>))"

definition recordMark :: "int \<Rightarrow> parser \<Rightarrow> parser" where
  "recordMark offset p = p\<lparr>mark := int (pos p) + offset\<rparr>"

text \<open>
  \<^verbatim>\<open>slice\<close>: the bytes from the mark to the cursor plus \<open>offset\<close>. Bounds that are
  not \<open>0 \<le> mark \<le> pos + offset \<le> len(input)\<close> are a runtime panic.
\<close>

definition slice :: "int \<Rightarrow> parser \<Rightarrow> string \<times> parser" where
  "slice offset p =
     (let lo = mark p; hi = int (pos p) + offset in
      if 0 \<le> lo \<and> lo \<le> hi \<and> hi \<le> int (length (input p))
      then (take (nat (hi - lo)) (drop (nat lo) (input p)), p\<lparr>mark := - 1\<rparr>)
      else ([], raise GoPanic p))"

definition stepN :: "nat \<Rightarrow> parser \<Rightarrow> parser" where
  "stepN n p = p\<lparr>pos := pos p + n, backups := n # backups p\<rparr>"

definition errorf :: "parser \<Rightarrow> reason \<Rightarrow> failure" where
  "errorf p r = ParseError (line p) (pos p) r"

text \<open>
  \<^verbatim>\<open>readRune\<close>: an invalid encoding panics with a \<^verbatim>\<open>ParseError\<close> before the cursor
  moves; at the end of the input the rune is \<open>eof\<close> and the width 0.
\<close>

definition readRune :: "parser \<Rightarrow> rune \<times> nat \<times> parser" where
  "readRune p =
     (case DecodeRuneInString (drop (pos p) (input p)) of (r, n) \<Rightarrow>
        if r = RuneError \<and> n = 1 then (r, n, raise (errorf p InvalidUtf8) p)
        else ((if r = RuneError \<and> n = 0 then eof else r), n, stepN n p))"

definition unread :: "parser \<Rightarrow> parser" where
  "unread p =
     (case backups p of
        [] \<Rightarrow> raise GoPanic p
      | rd # bs \<Rightarrow> p\<lparr>pos := pos p - rd, backups := bs\<rparr>)"

definition peekRune :: "parser \<Rightarrow> rune \<times> nat \<times> parser" where
  "peekRune p = (case readRune p of (r, n, p1) \<Rightarrow> (r, n, unread p1))"

definition readByte :: "parser \<Rightarrow> rune \<times> parser" where
  "readByte p =
     (if length (input p) \<le> pos p then (eof, stepN 0 p)
      else (rune (input p ! pos p), stepN 1 p))"

definition peekByte :: "parser \<Rightarrow> rune" where
  "peekByte p = (if length (input p) \<le> pos p then eof else rune (input p ! pos p))"

definition tryReadByte :: "rune \<Rightarrow> parser \<Rightarrow> bool \<times> parser" where
  "tryReadByte r p = (if peekByte p = r then (True, stepN 1 p) else (False, p))"

definition tryReadPrefix :: "string \<Rightarrow> parser \<Rightarrow> bool \<times> parser" where
  "tryReadPrefix s p =
     (if take (length s) (drop (pos p) (input p)) = s then (True, stepN (length s) p)
      else (False, p))"

text \<open>
  \<^verbatim>\<open>skipNewline\<close>: a carriage return, with the line feed after it if there is one, and
  a line feed are one line break each.
\<close>

definition skipNewline :: "rune \<Rightarrow> parser \<Rightarrow> bool \<times> parser" where
  "skipNewline r p =
     (if r = rune (CHR 0x0D) then
        (case tryReadByte (rune (CHR 0x0A)) p of (_, p1) \<Rightarrow> (True, p1\<lparr>line := line p1 + 1\<rparr>))
      else if r = rune (CHR 0x0A) then (True, p\<lparr>line := line p + 1\<rparr>)
      else (False, p))"

definition tryReadNewline :: "parser \<Rightarrow> bool \<times> parser" where
  "tryReadNewline p =
     (case readByte p of (r, p1) \<Rightarrow>
        (case skipNewline r p1 of
           (True, p2) \<Rightarrow> (True, p2)
         | (False, p2) \<Rightarrow> (False, unread p2)))"

definition clearBackups :: "parser \<Rightarrow> parser" where
  "clearBackups p = p\<lparr>backups := []\<rparr>"

subsection \<open>Errors\<close>

definition errorScanner :: "reason \<Rightarrow> parser \<Rightarrow> scanner option \<times> parser" where
  "errorScanner r p = (None, p\<lparr>err := Some (errorf p r)\<rparr>)"

definition setError :: "reason \<Rightarrow> parser \<Rightarrow> scanner option \<times> parser" where
  "setError r p = (None, p\<lparr>err := Some (ParseError (line p) (pos p) r)\<rparr>)"

definition expectRune :: "rune \<Rightarrow> parser \<Rightarrow> scanner option \<times> parser" where
  "expectRune r p =
     (case peekRune (unread p) of (got, _, p1) \<Rightarrow>
        (None, p1\<lparr>err := Some (ParseError (line p1) (pos p1) (ExpectRune r got))\<rparr>))"

definition expectStr :: "string \<Rightarrow> parser \<Rightarrow> scanner option \<times> parser" where
  "expectStr s p =
     (case peekRune (unread p) of (got, _, p1) \<Rightarrow>
        (None, p1\<lparr>err := Some (ParseError (line p1) (pos p1) (Expect s got))\<rparr>))"

subsection \<open>Paths\<close>

text \<open>
  \<^verbatim>\<open>normalizeKey\<close> ranges over the runes of the key. A bare-key character is an ASCII
  byte, and every byte of the encoding of another rune is at least 0x80, so the key is
  returned as it is exactly when each of its bytes is a bare-key character.
\<close>

definition normalizeKey :: "golib \<Rightarrow> string \<Rightarrow> string" where
  "normalizeKey L key =
     (if list_all (\<lambda>c. isBareKeyChar (rune c)) key then key else Quote L key)"

definition combineKeyPath :: "golib \<Rightarrow> string \<Rightarrow> string \<Rightarrow> string" where
  "combineKeyPath L pth key =
     (if pth = [] then normalizeKey L key else pth @ ''.'' @ normalizeKey L key)"

definition combineIndexPath :: "string \<Rightarrow> nat \<Rightarrow> string" where
  "combineIndexPath pth i = pth @ ''['' @ format_nat i @ '']''"

section \<open>Tree builder\<close>

text \<open>Following a pointer: the value a path leads to, and the tree with that value replaced.\<close>

fun child :: "val \<Rightarrow> sel \<Rightarrow> val option" where
  "child (Table imp elems) (Field k) = map_of elems k"
| "child (Table imp elems) (Elem k i) =
     (case map_of elems k of
        Some (Array closed vs) \<Rightarrow> (if i < length vs then Some (vs ! i) else None)
      | _ \<Rightarrow> None)"
| "child _ _ = None"

fun set_child :: "val \<Rightarrow> sel \<Rightarrow> val \<Rightarrow> val" where
  "set_child (Table imp elems) (Field k) c = Table imp (AList.update k c elems)"
| "set_child (Table imp elems) (Elem k i) c =
     (case map_of elems k of
        Some (Array closed vs) \<Rightarrow> Table imp (AList.update k (Array closed (vs[i := c])) elems)
      | _ \<Rightarrow> Table imp elems)"
| "set_child v _ _ = v"

fun get_at :: "val \<Rightarrow> sel list \<Rightarrow> val option" where
  "get_at v [] = Some v"
| "get_at v (s # ss) = (case child v s of None \<Rightarrow> None | Some c \<Rightarrow> get_at c ss)"

fun put_at :: "val \<Rightarrow> sel list \<Rightarrow> val \<Rightarrow> val" where
  "put_at v [] new = new"
| "put_at v (s # ss) new =
     (case child v s of None \<Rightarrow> v | Some c \<Rightarrow> set_child v s (put_at c ss new))"

definition envVal :: "parser \<Rightarrow> envref \<Rightarrow> val option" where
  "envVal p e = (case e of Local v \<Rightarrow> Some v | InRoot loc \<Rightarrow> get_at (root p) loc)"

text \<open>\<^verbatim>\<open>topEnv\<close>: the object the top environment points to, and its path text.\<close>

definition topEnv :: "parser \<Rightarrow> (val \<times> string) option" where
  "topEnv p =
     (case envs p of
        [] \<Rightarrow> None
      | e # _ \<Rightarrow> (case envVal p (env e) of None \<Rightarrow> None | Some v \<Rightarrow> Some (v, path e)))"

text \<open>Writing through the pointer of the top environment.\<close>

definition storeTop :: "val \<Rightarrow> parser \<Rightarrow> parser" where
  "storeTop v p =
     (case envs p of
        [] \<Rightarrow> p
      | e # es \<Rightarrow>
        (case env e of
           Local _ \<Rightarrow> p\<lparr>envs := e\<lparr>env := Local v\<rparr> # es\<rparr>
         | InRoot loc \<Rightarrow> p\<lparr>root := put_at (root p) loc v\<rparr>))"

text \<open>
  \<^verbatim>\<open>pushTableKey\<close>. The type assertion \<^verbatim>\<open>env.(*types.Table)\<close> panics on an array.
\<close>

definition pushTableKey :: "golib \<Rightarrow> string \<Rightarrow> parser \<Rightarrow> scanner option \<times> parser" where
  "pushTableKey L key p =
     (case topEnv p of
        Some (Table imp elems, pth) \<Rightarrow>
          (case map_of elems key of
             Some v \<Rightarrow> errorScanner (KeyDefined pth (normalizeKey L key) (Type v)) p
           | None \<Rightarrow> popScanner (p\<lparr>keys := key # keys p\<rparr>))
      | _ \<Rightarrow> (None, raise GoPanic p))"

text \<open>
  \<^verbatim>\<open>setValue\<close>: an array takes the value at its end when it is empty or the value has
  the type of its first element; a table binds the value to the key popped from the
  key stack.
\<close>

definition setValue :: "val \<Rightarrow> parser \<Rightarrow> scanner option \<times> parser" where
  "setValue v p =
     (case topEnv p of
        None \<Rightarrow> (None, raise GoPanic p)
      | Some (Array closed elems, pth) \<Rightarrow>
          (if elems \<noteq> [] \<and> Type (hd elems) \<noteq> Type v
           then errorScanner (ArrayExpects pth (Type (hd elems)) (Type v)) p
           else popScanner (storeTop (Array closed (elems @ [v])) p))
      | Some (Table imp elems, pth) \<Rightarrow>
          (case keys p of
             [] \<Rightarrow> (None, raise GoPanic p)
           | key # ks \<Rightarrow>
               popScanner (storeTop (Table imp (AList.update key v elems)) (p\<lparr>keys := ks\<rparr>)))
      | Some (_, pth) \<Rightarrow> popScanner p)"

definition resetEnv :: "sel list \<Rightarrow> string \<Rightarrow> parser \<Rightarrow> parser" where
  "resetEnv loc pth p =
     (if envs p = [] then raise GoPanic p
      else p\<lparr>envs := [\<lparr>env = InRoot loc, path = pth\<rparr>]\<rparr>)"

definition pushEnv :: "golib \<Rightarrow> val \<Rightarrow> parser \<Rightarrow> parser" where
  "pushEnv L new p =
     (case topEnv p of
        None \<Rightarrow> raise GoPanic p
      | Some (Table imp elems, pth) \<Rightarrow>
          (case keys p of
             [] \<Rightarrow> raise GoPanic p
           | key # _ \<Rightarrow> p\<lparr>envs := \<lparr>env = Local new, path = combineKeyPath L pth key\<rparr> # envs p\<rparr>)
      | Some (Array closed elems, pth) \<Rightarrow>
          p\<lparr>envs := \<lparr>env = Local new, path = combineIndexPath pth (length elems)\<rparr> # envs p\<rparr>
      | Some (_, pth) \<Rightarrow> p\<lparr>envs := \<lparr>env = Local new, path = pth\<rparr> # envs p\<rparr>)"

text \<open>\<^verbatim>\<open>popEnv\<close>: the object of the popped environment.\<close>

definition popEnv :: "parser \<Rightarrow> val option \<times> parser" where
  "popEnv p =
     (case envs p of
        [] \<Rightarrow> (None, raise GoPanic p)
      | e # es \<Rightarrow> (envVal p (env e), p\<lparr>envs := es\<rparr>))"

text \<open>
  \<^verbatim>\<open>locateTable\<close>, from the table at \<open>loc\<close> of the tree \<open>rt\<close>; \<open>ln\<close> and \<open>ps\<close> are the
  line and the position of the parser, for the error. The result is the tree, with the
  implicit tables the walk created, the pointer to the table found and its path text.
  The panics with a \<^verbatim>\<open>ParseError\<close> are \<open>Inl\<close>; so are the runtime panics of
  \<^verbatim>\<open>v.Elems[i].(*types.Table)\<close> on an empty array or on an element that is no table.
\<close>

fun locateTable :: "golib \<Rightarrow> nat \<Rightarrow> nat \<Rightarrow> string list \<Rightarrow> val \<Rightarrow> sel list \<Rightarrow> string
    \<Rightarrow> failure + (val \<times> sel list \<times> string)" where
  "locateTable L ln ps [] rt loc pth = Inr (rt, loc, pth)"
| "locateTable L ln ps (name # rest) rt loc pth =
     (let pth1 = combineKeyPath L pth name in
      case get_at rt loc of
        Some (Table imp elems) \<Rightarrow>
          (case map_of elems name of
             None \<Rightarrow>
               locateTable L ln ps rest
                 (put_at rt loc (Table imp (AList.update name (Table True []) elems)))
                 (loc @ [Field name]) pth1
           | Some (Table imp1 elems1) \<Rightarrow> locateTable L ln ps rest rt (loc @ [Field name]) pth1
           | Some (Array closed vs) \<Rightarrow>
               (if closed then Inl (ParseError ln ps (DefinedAs pth1 ''array''))
                else if vs = [] then Inl GoPanic
                else (case last vs of
                        Table imp1 elems1 \<Rightarrow>
                          locateTable L ln ps rest rt (loc @ [Elem name (length vs - 1)])
                            (combineIndexPath pth1 (length vs - 1))
                      | _ \<Rightarrow> Inl GoPanic))
           | Some v \<Rightarrow> Inl (ParseError ln ps (DefinedAs pth1 (Type v))))
      | _ \<Rightarrow> Inl GoPanic)"

text \<open>\<^verbatim>\<open>createTable\<close>, in the table at \<open>loc\<close>.\<close>

definition createTable :: "golib \<Rightarrow> nat \<Rightarrow> nat \<Rightarrow> val \<Rightarrow> sel list \<Rightarrow> string \<Rightarrow> string
    \<Rightarrow> failure + (val \<times> sel list \<times> string)" where
  "createTable L ln ps rt loc pth name =
     (let pth1 = combineKeyPath L pth name in
      case get_at rt loc of
        Some (Table imp elems) \<Rightarrow>
          (case map_of elems name of
             None \<Rightarrow>
               Inr (put_at rt loc (Table imp (AList.update name (Table False []) elems)),
                    loc @ [Field name], pth1)
           | Some (Table imp1 elems1) \<Rightarrow>
               (if \<not> imp1 then Inl (ParseError ln ps (DefinedTwice pth1))
                else Inr (put_at rt loc (Table imp (AList.update name (Table False elems1) elems)),
                          loc @ [Field name], pth1))
           | Some v \<Rightarrow> Inl (ParseError ln ps (DefinedAs pth1 (Type v))))
      | _ \<Rightarrow> Inl GoPanic)"

text \<open>\<^verbatim>\<open>createTableArray\<close>, in the table at \<open>loc\<close>; the new table is the last element.\<close>

definition createTableArray :: "golib \<Rightarrow> nat \<Rightarrow> nat \<Rightarrow> val \<Rightarrow> sel list \<Rightarrow> string \<Rightarrow> string
    \<Rightarrow> failure + (val \<times> sel list \<times> string)" where
  "createTableArray L ln ps rt loc pth name =
     (let pth1 = combineKeyPath L pth name in
      case get_at rt loc of
        Some (Table imp elems) \<Rightarrow>
          (case map_of elems name of
             None \<Rightarrow>
               Inr (put_at rt loc
                      (Table imp (AList.update name (Array False [Table False []]) elems)),
                    loc @ [Elem name 0], pth1)
           | Some (Array closed vs) \<Rightarrow>
               (if closed then Inl (ParseError ln ps (DefinedAs pth1 ''array''))
                else Inr (put_at rt loc
                            (Table imp (AList.update name (Array False (vs @ [Table False []])) elems)),
                          loc @ [Elem name (length vs)], pth1))
           | Some v \<Rightarrow> Inl (ParseError ln ps (DefinedAs pth1 (Type v))))
      | _ \<Rightarrow> Inl GoPanic)"

section \<open>Lexical scanners\<close>

text \<open>
  Each state function of \<^verbatim>\<open>parse.go\<close> maps the parser to the next state function, or to
  \<open>None\<close> for \<^verbatim>\<open>nil\<close>, and the parser it leaves. The branches are in the order of
  the source.
\<close>

definition scanByte :: "rune \<Rightarrow> parser \<Rightarrow> scanner option \<times> parser" where
  "scanByte r p =
     (case readByte p of (r1, p1) \<Rightarrow>
        if r1 \<noteq> r then expectRune r p1 else popScanner p1)"

definition scanDigit :: "parser \<Rightarrow> scanner option \<times> parser" where
  "scanDigit p =
     (case readByte p of (r, p1) \<Rightarrow>
        if \<not> isDigit r then expectStr ''digit'' p1 else popScanner p1)"

definition scanConsumeBlank :: "parser \<Rightarrow> scanner option \<times> parser" where
  "scanConsumeBlank p =
     (case readByte p of (r, p1) \<Rightarrow>
        if isSpace r then (Some ScanConsumeBlank, p1)
        else (case skipNewline r p1 of
                (True, p2) \<Rightarrow> (Some ScanConsumeBlank, p2)
              | (False, p2) \<Rightarrow> popScanner (unread p2)))"

definition scanRecord :: "int \<Rightarrow> parser \<Rightarrow> scanner option \<times> parser" where
  "scanRecord offset p = popScanner (recordMark offset p)"

definition scanReturnString :: "string \<Rightarrow> parser \<Rightarrow> scanner option \<times> parser" where
  "scanReturnString s p = popScanner (str_push s p)"

text \<open>The loop of \<^verbatim>\<open>scanUnicodeRune\<close>: \<open>n\<close> bytes, each a hexadecimal digit of \<^verbatim>\<open>isHex\<close>.\<close>

fun readHexes :: "nat \<Rightarrow> parser \<Rightarrow> bool \<times> parser" where
  "readHexes 0 p = (True, p)"
| "readHexes (Suc n) p =
     (case readByte p of (r, p1) \<Rightarrow> if \<not> isHex r then (False, p1) else readHexes n p1)"

definition scanUnicodeRune :: "nat \<Rightarrow> parser \<Rightarrow> scanner option \<times> parser" where
  "scanUnicodeRune n p =
     (case readHexes n (recordMark 0 p) of
        (False, p1) \<Rightarrow> expectStr ''hexadecimal digit'' p1
      | (True, p1) \<Rightarrow>
          (case slice 0 p1 of (s, p2) \<Rightarrow>
             (case ParseUint16 0 s of
                None \<Rightarrow> setError (UintError s) p2
              | Some codepoint \<Rightarrow>
                  if \<not> ValidRune codepoint then errorScanner (NotValidRune s) p2
                  else scanReturnString (EncodeRune codepoint) p2)))"

definition scanEscapedRune :: "parser \<Rightarrow> scanner option \<times> parser" where
  "scanEscapedRune p =
     (case readByte p of (r, p1) \<Rightarrow>
        if r = rune CHR ''b'' then scanReturnString [CHR 0x08] p1
        else if r = rune CHR ''t'' then scanReturnString [CHR 0x09] p1
        else if r = rune CHR ''n'' then scanReturnString [CHR 0x0A] p1
        else if r = rune CHR ''f'' then scanReturnString [CHR 0x0C] p1
        else if r = rune CHR ''r'' then scanReturnString [CHR 0x0D] p1
        else if r = rune (CHR 0x22) then scanReturnString [CHR 0x22] p1
        else if r = rune (CHR 0x5C) then scanReturnString [CHR 0x5C] p1
        else if r = rune CHR ''u'' then scanUnicodeRune 4 p1
        else if r = rune CHR ''U'' then scanUnicodeRune 8 p1
        else expectStr ''escaped sequence'' p1)"

definition scanLiteral :: "parser \<Rightarrow> scanner option \<times> parser" where
  "scanLiteral p =
     (case readRune p of (r, _, p1) \<Rightarrow>
        if r = rune (CHR 0x27) then
          (case slice (- 1) p1 of (s, p2) \<Rightarrow> popScanner (str_push s p2))
        else if r = rune (CHR 0x0D) \<or> r = rune (CHR 0x0A) then
          errorScanner (Msg ''newline is not allowed in oneline string'') p1
        else if r = eof then errorScanner (Msg ''string without ending'') p1
        else (Some ScanLiteral, p1))"

definition scanMultiLineLiteral :: "parser \<Rightarrow> scanner option \<times> parser" where
  "scanMultiLineLiteral p =
     (case readRune p of (r, _, p1) \<Rightarrow>
        if r = eof then errorScanner (Msg ''no ending for multi-line literal string'') p1
        else if r = rune (CHR 0x27) then
          (case tryReadPrefix [CHR 0x27, CHR 0x27] p1 of
             (True, p2) \<Rightarrow> (case slice (- 3) p2 of (s, p3) \<Rightarrow> popScanner (str_push s p3))
           | (False, p2) \<Rightarrow> (Some ScanMultiLineLiteral, p2))
        else (Some ScanMultiLineLiteral, p1))"

definition scanMultiLineString :: "parser \<Rightarrow> scanner option \<times> parser" where
  "scanMultiLineString p =
     (case readRune p of (r, _, p1) \<Rightarrow>
        if r = rune (CHR 0x5C) then
          (case slice (- 1) p1 of (s, p2) \<Rightarrow>
             (case tryReadNewline (str_push s p2) of
                (True, p3) \<Rightarrow> seqScanner [ScanConsumeBlank, scanRecord0, ScanMultiLineString] p3
              | (False, p3) \<Rightarrow> seqScanner [ScanEscapedRune, scanRecord0, ScanMultiLineString] p3))
        else if r = eof then errorScanner (Msg ''multi-line basic string without ending'') p1
        else if r = rune (CHR 0x22) then
          (case tryReadPrefix [CHR 0x22, CHR 0x22] p1 of
             (True, p2) \<Rightarrow> (case slice (- 3) p2 of (s, p3) \<Rightarrow> popScanner (str_push s p3))
           | (False, p2) \<Rightarrow> (Some ScanMultiLineString, p2))
        else (Some ScanMultiLineString, p1))"

definition scanComment :: "parser \<Rightarrow> scanner option \<times> parser" where
  "scanComment p =
     (case readRune p of (r, _, p1) \<Rightarrow>
        if r = eof then popScanner p1
        else (case skipNewline r p1 of
                (True, p2) \<Rightarrow> popScanner p2
              | (False, p2) \<Rightarrow> (Some ScanComment, p2)))"

text \<open>
  The header ends. \<^verbatim>\<open>p.names[:i]\<close> with \<open>i = -1\<close> is a runtime panic; the panics of the
  tree builder leave the state function at once.
\<close>

definition scanArrayTableEnd :: "golib \<Rightarrow> parser \<Rightarrow> scanner option \<times> parser" where
  "scanArrayTableEnd L p =
     (if names p = [] then (None, raise GoPanic p)
      else (case locateTable L (line p) (pos p) (butlast (names p)) (root p) [] [] of
              Inl f \<Rightarrow> (None, raise f p)
            | Inr (rt, loc, pth) \<Rightarrow>
                (case createTableArray L (line p) (pos p) rt loc pth (last (names p)) of
                   Inl f \<Rightarrow> (None, raise f p)
                 | Inr (rt1, loc1, pth1) \<Rightarrow>
                     (Some ScanTopEnd, resetEnv loc1 pth1 (p\<lparr>root := rt1\<rparr>)))))"

definition scanTableEnd :: "golib \<Rightarrow> parser \<Rightarrow> scanner option \<times> parser" where
  "scanTableEnd L p =
     (if names p = [] then (None, raise GoPanic p)
      else (case locateTable L (line p) (pos p) (butlast (names p)) (root p) [] [] of
              Inl f \<Rightarrow> (None, raise f p)
            | Inr (rt, loc, pth) \<Rightarrow>
                (case createTable L (line p) (pos p) rt loc pth (last (names p)) of
                   Inl f \<Rightarrow> (None, raise f p)
                 | Inr (rt1, loc1, pth1) \<Rightarrow>
                     (Some ScanTopEnd, resetEnv loc1 pth1 (p\<lparr>root := rt1\<rparr>)))))"

definition scanTableStart :: "parser \<Rightarrow> scanner option \<times> parser" where
  "scanTableStart p =
     (case tryReadByte (rune CHR ''['') (p\<lparr>names := []\<rparr>) of
        (True, p1) \<Rightarrow>
          seqScanner [ScanTableNameStart, ScanByte (rune CHR '']''), ScanArrayTableEnd] p1
      | (False, p1) \<Rightarrow> seqScanner [ScanTableNameStart, ScanTableEnd] p1)"

definition scanString :: "parser \<Rightarrow> scanner option \<times> parser" where
  "scanString p =
     (case readRune p of (r, _, p1) \<Rightarrow>
        if r = rune (CHR 0x22) then
          (case slice (- 1) p1 of (s, p2) \<Rightarrow> popScanner (str_push s p2))
        else if r = rune (CHR 0x5C) then
          (case slice (- 1) p1 of (s, p2) \<Rightarrow>
             seqScanner [ScanEscapedRune, scanRecord0, ScanString] (str_push s p2))
        else if r = rune (CHR 0x0D) \<or> r = rune (CHR 0x0A) then
          errorScanner (Msg ''newline is not allowed in oneline string'') p1
        else if r = eof then errorScanner (Msg ''string without ending'') p1
        else (Some ScanString, p1))"

definition appendTableName :: "string \<Rightarrow> parser \<Rightarrow> parser" where
  "appendTableName name p = p\<lparr>names := names p @ [name]\<rparr>"

definition scanTableNameString :: "parser \<Rightarrow> scanner option \<times> parser" where
  "scanTableNameString p =
     (case str_join p of (s, p1) \<Rightarrow> (Some ScanTableNameEnd, appendTableName s p1))"

definition scanTableNameStart :: "parser \<Rightarrow> scanner option \<times> parser" where
  "scanTableNameStart p =
     (case readByte p of (r, p1) \<Rightarrow>
        if isSpace r then (Some ScanTableNameStart, p1)
        else if r = rune CHR ''.'' \<or> r = rune CHR '']'' then
          errorScanner (Msg ''table name must be non-empty'') p1
        else if r = rune (CHR 0x22) then
          seqScanner [scanRecord0, ScanString, ScanTableNameString] p1
        else if isBareKeyChar r then (Some ScanTableNameInside, recordMark (- 1) p1)
        else expectStr ''table name'' p1)"

definition scanTableNameInside :: "parser \<Rightarrow> scanner option \<times> parser" where
  "scanTableNameInside p =
     (case readByte p of (r, p1) \<Rightarrow>
        if isSpace r then
          (case slice (- 1) p1 of (s, p2) \<Rightarrow> (Some ScanTableNameEnd, appendTableName s p2))
        else if isBareKeyChar r then (Some ScanTableNameInside, p1)
        else if r = rune CHR ''.'' then
          (case slice (- 1) p1 of (s, p2) \<Rightarrow> (Some ScanTableNameStart, appendTableName s p2))
        else if r = rune CHR '']'' then
          (case slice (- 1) p1 of (s, p2) \<Rightarrow> popScanner (appendTableName s p2))
        else expectStr ''bare character'' p1)"

definition scanTableNameEnd :: "parser \<Rightarrow> scanner option \<times> parser" where
  "scanTableNameEnd p =
     (case readByte p of (r, p1) \<Rightarrow>
        if isSpace r then (Some ScanTableNameEnd, p1)
        else if r = rune CHR ''.'' then (Some ScanTableNameStart, p1)
        else if r = rune CHR '']'' then popScanner p1
        else expectStr [CHR 0x27, CHR ''.'', CHR 0x27, CHR '' '', CHR ''o'', CHR ''r'', CHR '' '',
                        CHR 0x27, CHR '']'', CHR 0x27] p1)"

text \<open>The top level: between statements, and after a statement.\<close>

definition scanTop :: "parser \<Rightarrow> scanner option \<times> parser" where
  "scanTop p =
     (case readByte p of (r, p1) \<Rightarrow>
        if isSpace r then (Some ScanTop, p1)
        else (case skipNewline r p1 of
                (True, p2) \<Rightarrow> (Some ScanTop, p2)
              | (False, p2) \<Rightarrow>
                  if r = rune CHR ''#'' then seqScanner [ScanComment, ScanTop] p2
                  else if r = rune CHR ''['' then (Some ScanTableStart, p2)
                  else if r = eof then (None, p2)
                  else seqScanner [ScanTableField, ScanTopEnd] (unread p2)))"

definition scanTopEnd :: "parser \<Rightarrow> scanner option \<times> parser" where
  "scanTopEnd p =
     (case readByte p of (r, p1) \<Rightarrow>
        if r = eof then (Some ScanTop, p1)
        else (case skipNewline r p1 of
                (True, p2) \<Rightarrow> (Some ScanTop, p2)
              | (False, p2) \<Rightarrow>
                  if isSpace r then (Some ScanTopEnd, p2)
                  else if r = rune CHR ''#'' then seqScanner [ScanComment, ScanTop] p2
                  else expectStr ''new line, comment or EOF'' p2))"

subsection \<open>Values\<close>

definition scanInlineTableFieldEnd :: "parser \<Rightarrow> scanner option \<times> parser" where
  "scanInlineTableFieldEnd p =
     (case readByte p of (r, p1) \<Rightarrow>
        if isSpace r then (Some ScanInlineTableFieldEnd, p1)
        else if r = rune CHR '','' then seqScanner [ScanTableField, ScanInlineTableFieldEnd] p1
        else if r = rune CHR ''}'' then
          (case popEnv p1 of
             (None, p2) \<Rightarrow> (None, raise GoPanic p2)
           | (Some t, p2) \<Rightarrow> setValue t p2)
        else expectStr
          [CHR ''i'', CHR ''n'', CHR ''l'', CHR ''i'', CHR ''n'', CHR ''e'', CHR '' '',
           CHR ''t'', CHR ''a'', CHR ''b'', CHR ''l'', CHR ''e'', CHR '' '',
           CHR ''s'', CHR ''e'', CHR ''p'', CHR ''a'', CHR ''r'', CHR ''a'', CHR ''t'',
           CHR ''o'', CHR ''r'', CHR '' '', CHR 0x27, CHR '','', CHR 0x27, CHR '' '',
           CHR ''o'', CHR ''r'', CHR '' '', CHR ''t'', CHR ''e'', CHR ''r'', CHR ''m'',
           CHR ''i'', CHR ''n'', CHR ''a'', CHR ''t'', CHR ''o'', CHR ''r'', CHR '' '',
           CHR 0x27, CHR ''}'', CHR 0x27] p1)"

definition scanInlineTableStart :: "golib \<Rightarrow> parser \<Rightarrow> scanner option \<times> parser" where
  "scanInlineTableStart L p =
     (case readByte p of (r, p1) \<Rightarrow>
        (case skipNewline r p1 of
           (True, p2) \<Rightarrow> errorScanner (Msg ''newlines are not allowed in inline table'') p2
         | (False, p2) \<Rightarrow>
             if isSpace r then (Some ScanInlineTableStart, p2)
             else if r = rune CHR '','' then
               errorScanner (Msg [CHR ''u'', CHR ''n'', CHR ''e'', CHR ''x'', CHR ''p'', CHR ''e'',
                 CHR ''c'', CHR ''t'', CHR ''e'', CHR ''d'', CHR '' '', CHR 0x27, CHR '','',
                 CHR 0x27, CHR '' '', CHR ''i'', CHR ''n'', CHR '' '', CHR ''i'', CHR ''n'',
                 CHR ''l'', CHR ''i'', CHR ''n'', CHR ''e'', CHR '' '', CHR ''t'', CHR ''a'',
                 CHR ''b'', CHR ''l'', CHR ''e'']) p2
             else if r = rune CHR ''}'' then setValue (Table False []) p2
             else seqScanner [ScanTableField, ScanInlineTableFieldEnd]
                    (pushEnv L (Table False []) (unread p2))))"

text \<open>\<^verbatim>\<open>numParser.Float\<close> and \<^verbatim>\<open>numParser.Integer\<close> reset the accumulator when they return.\<close>

definition setFloatValue :: "golib \<Rightarrow> parser \<Rightarrow> scanner option \<times> parser" where
  "setFloatValue L p =
     (let s = num_join (num p); p1 = p\<lparr>num := num_reset (num p)\<rparr> in
      case ParseFloat L s of
        None \<Rightarrow> setError (FloatError s) p1
      | Some f \<Rightarrow> setValue (Float f) p1)"

definition setIntegerValue :: "parser \<Rightarrow> scanner option \<times> parser" where
  "setIntegerValue p =
     (let p1 = p\<lparr>num := num_reset (num p)\<rparr> in
      case num_Integer (num p) of
        Inl f \<Rightarrow> (None, raise f p)
      | Inr (Inl e) \<Rightarrow> setError e p1
      | Inr (Inr i) \<Rightarrow> setValue (Integer i) p1)"

definition setStringValue :: "parser \<Rightarrow> scanner option \<times> parser" where
  "setStringValue p = (case str_join p of (s, p1) \<Rightarrow> setValue (String s) p1)"

definition scanFloatFraction :: "golib \<Rightarrow> parser \<Rightarrow> scanner option \<times> parser" where
  "scanFloatFraction L p =
     (case readByte p of (r, p1) \<Rightarrow>
        if isDigit r then (Some ScanFloatFraction, p1)
        else if r = rune CHR ''_'' then
          (case slice (- 1) p1 of (s, p2) \<Rightarrow>
             seqScanner [scanRecord0, ScanDigit, ScanFloatFraction] (pushFraction s p2))
        else if r = rune CHR ''.'' then errorScanner (Msg ''decimal point already read'') p1
        else if r = rune CHR ''e'' \<or> r = rune CHR ''E'' then
          (case slice (- 1) (p1\<lparr>num := (num p1)\<lparr>exp_e := byte_string r\<rparr>\<rparr>) of (s, p2) \<Rightarrow>
             (Some ScanFloatExponentSign, pushFraction s p2))
        else (case slice 0 (unread p1) of (s, p2) \<Rightarrow> setFloatValue L (pushFraction s p2)))"

definition scanFloatExponent :: "golib \<Rightarrow> parser \<Rightarrow> scanner option \<times> parser" where
  "scanFloatExponent L p =
     (case readByte p of (r, p1) \<Rightarrow>
        if isDigit r then (Some ScanFloatExponent, p1)
        else if r = rune CHR ''_'' then
          (case slice (- 1) p1 of (s, p2) \<Rightarrow>
             seqScanner [scanRecord0, ScanDigit, ScanFloatExponent] (pushExponent s p2))
        else (case slice 0 (unread p1) of (s, p2) \<Rightarrow> setFloatValue L (pushExponent s p2)))"

definition scanFloatExponentSign :: "parser \<Rightarrow> scanner option \<times> parser" where
  "scanFloatExponentSign p =
     (case readByte p of (r, p1) \<Rightarrow>
        seqScanner [scanRecord0, ScanDigit, ScanFloatExponent]
          (if r = rune CHR ''+'' \<or> r = rune CHR ''-''
           then p1\<lparr>num := (num p1)\<lparr>esign := byte_string r\<rparr>\<rparr>
           else unread p1))"

definition scanNumber :: "parser \<Rightarrow> scanner option \<times> parser" where
  "scanNumber p =
     (case readByte p of (r, p1) \<Rightarrow>
        if isDigit r then (Some ScanNumber, p1)
        else if r = rune CHR ''_'' then
          (case slice (- 1) p1 of (s, p2) \<Rightarrow>
             seqScanner [scanRecord0, ScanDigit, ScanNumber] (pushInteger s p2))
        else if r = rune CHR ''.'' then
          (case slice (- 1) p1 of (s, p2) \<Rightarrow>
             seqScanner [scanRecord0, ScanDigit, ScanFloatFraction] (pushInteger s p2))
        else if r = rune CHR ''e'' \<or> r = rune CHR ''E'' then
          (case slice (- 1) (p1\<lparr>num := (num p1)\<lparr>exp_e := byte_string r\<rparr>\<rparr>) of (s, p2) \<Rightarrow>
             seqScanner [scanRecord0, ScanDigit, ScanFloatExponent] (pushInteger s p2))
        else (case slice 0 (unread p1) of (s, p2) \<Rightarrow> setIntegerValue (pushInteger s p2)))"

definition scanNumberStart :: "parser \<Rightarrow> scanner option \<times> parser" where
  "scanNumberStart p = seqScanner [scanRecord0, ScanDigit, ScanNumber] p"

definition scanStringStart :: "parser \<Rightarrow> scanner option \<times> parser" where
  "scanStringStart p =
     (case tryReadPrefix [CHR 0x22, CHR 0x22] p of
        (True, p1) \<Rightarrow>
          (case tryReadNewline p1 of (_, p2) \<Rightarrow>
             seqScanner [scanRecord0, ScanMultiLineString, SetStringValue] p2)
      | (False, p1) \<Rightarrow> seqScanner [scanRecord0, ScanString, SetStringValue] p1)"

definition scanLiteralStart :: "parser \<Rightarrow> scanner option \<times> parser" where
  "scanLiteralStart p =
     (case tryReadPrefix [CHR 0x27, CHR 0x27] p of
        (True, p1) \<Rightarrow>
          (case tryReadNewline p1 of (_, p2) \<Rightarrow>
             seqScanner [scanRecord0, ScanMultiLineLiteral, SetStringValue] p2)
      | (False, p1) \<Rightarrow> seqScanner [scanRecord0, ScanLiteral, SetStringValue] p1)"

subsection \<open>Arrays\<close>

definition scanArrayValue :: "parser \<Rightarrow> scanner option \<times> parser" where
  "scanArrayValue p =
     (case readByte p of (r, p1) \<Rightarrow>
        if isSpace r then (Some ScanArrayValue, p1)
        else (case skipNewline r p1 of
                (True, p2) \<Rightarrow> (Some ScanArrayValue, p2)
              | (False, p2) \<Rightarrow>
                  if r = rune CHR ''#'' then seqScanner [ScanComment, ScanArrayValue] p2
                  else if r = rune CHR '','' then
                    errorScanner (Msg ''no array element before separator'') p2
                  else if r = rune CHR '']'' then popScanner (unread p2)
                  else (Some ScanValue, unread p2)))"

definition scanArrayStart :: "golib \<Rightarrow> parser \<Rightarrow> scanner option \<times> parser" where
  "scanArrayStart L p = seqScanner [ScanArrayValue, ScanArrayEnd] (pushEnv L (Array True []) p)"

definition scanArrayEnd :: "parser \<Rightarrow> scanner option \<times> parser" where
  "scanArrayEnd p =
     (case readByte p of (r, p1) \<Rightarrow>
        if isSpace r then (Some ScanArrayEnd, p1)
        else if r = rune CHR ''#'' then seqScanner [ScanComment, ScanArrayEnd] p1
        else if r = rune CHR '','' then seqScanner [ScanArrayValue, ScanArrayEnd] p1
        else if r = rune CHR '']'' then
          (case popEnv p1 of
             (None, p2) \<Rightarrow> (None, raise GoPanic p2)
           | (Some a, p2) \<Rightarrow> setValue a p2)
        else expectStr [CHR 0x27, CHR '','', CHR 0x27, CHR '' '', CHR ''o'', CHR ''r'', CHR '' '',
                        CHR 0x27, CHR '']'', CHR 0x27] p1)"

definition scanValue :: "parser \<Rightarrow> scanner option \<times> parser" where
  "scanValue p =
     (case readByte p of (r, p1) \<Rightarrow>
        if r = rune CHR ''['' then (Some ScanArrayStart, p1)
        else if r = rune CHR ''{'' then (Some ScanInlineTableStart, p1)
        else if r = rune CHR ''t'' then
          (case tryReadPrefix ''rue'' p1 of
             (False, p2) \<Rightarrow> expectStr ''true'' p2
           | (True, p2) \<Rightarrow> setValue (Boolean True) p2)
        else if r = rune CHR ''f'' then
          (case tryReadPrefix ''alse'' p1 of
             (False, p2) \<Rightarrow> expectStr ''false'' p2
           | (True, p2) \<Rightarrow> setValue (Boolean False) p2)
        else if r = rune (CHR 0x22) then (Some ScanStringStart, p1)
        else if r = rune (CHR 0x27) then (Some ScanLiteralStart, p1)
        else if r = rune CHR ''+'' \<or> r = rune CHR ''-'' then
          (Some ScanNumberStart, p1\<lparr>num := (num p1)\<lparr>sign := byte_string r\<rparr>\<rparr>)
        else if isDigit r then (Some ScanNumberOrDate, recordMark (- 1) p1)
        else if isSpace r then (Some ScanValue, p1)
        else expectStr ''value'' p1)"

subsection \<open>Dates\<close>

text \<open>
  \<^verbatim>\<open>scanDateValue\<close>: the text from the mark, with the suffix, goes to the library; its
  error, or the instant as the value.
\<close>

definition scanDateValue :: "golib \<Rightarrow> string \<Rightarrow> parser \<Rightarrow> scanner option \<times> parser" where
  "scanDateValue L suffix p =
     (case slice 0 p of (s0, p1) \<Rightarrow>
        (case TimeParse L (s0 @ suffix) of
           None \<Rightarrow> errorScanner (TimeError (s0 @ suffix)) p1
         | Some t \<Rightarrow> setValue (Datetime t) p1))"

definition scanDateEnd :: "golib \<Rightarrow> parser \<Rightarrow> scanner option \<times> parser" where
  "scanDateEnd L p = scanDateValue L [] p"

definition scanDateTimeEnd :: "golib \<Rightarrow> parser \<Rightarrow> scanner option \<times> parser" where
  "scanDateTimeEnd L p =
     (case readByte p of (r, p1) \<Rightarrow>
        if r = rune CHR ''Z'' then scanDateEnd L p1
        else if r = rune CHR ''-'' then
          seqScanner [ScanDigit, ScanDigit, scanColon, ScanDigit, ScanDigit, ScanDateEnd] p1
        else scanDateValue L ''Z'' (unread p1))"

text \<open>
  The loop \<^verbatim>\<open>for isDigit(p.readByte()) {}\<close>: it reads bytes up to and with the first
  that is no digit. A digit is read only before the end of the input, so the loop ends.
\<close>

function readDigits :: "parser \<Rightarrow> parser" where
  "readDigits p = (case readByte p of (r, p1) \<Rightarrow> if isDigit r then readDigits p1 else p1)"
  by pat_completeness auto
termination
  by (relation "measure (\<lambda>p. length (input p) - pos p)")
     (auto simp: readByte_def stepN_def isDigit_def eof_def split: if_splits)

declare readDigits.simps [simp del]

definition scanDateTimeFraction :: "parser \<Rightarrow> scanner option \<times> parser" where
  "scanDateTimeFraction p =
     (case readByte p of (r, p1) \<Rightarrow>
        if r = rune CHR ''.'' then (Some ScanDateTimeEnd, unread (readDigits p1))
        else (Some ScanDateTimeEnd, unread p1))"

definition scanDateTime :: "golib \<Rightarrow> parser \<Rightarrow> scanner option \<times> parser" where
  "scanDateTime L p =
     (case readByte p of (r, p1) \<Rightarrow>
        if r = rune CHR ''T'' then
          seqScanner [ScanDigit, ScanDigit, scanColon, ScanDigit, ScanDigit, scanColon,
                      ScanDigit, ScanDigit, ScanDateTimeFraction] p1
        else scanDateValue L ''T00:00:00Z'' (unread p1))"

definition scanNumberOrDate :: "parser \<Rightarrow> scanner option \<times> parser" where
  "scanNumberOrDate p =
     (case readByte p of (r, p1) \<Rightarrow>
        if r = rune CHR ''-'' then
          seqScanner [ScanDigit, ScanDigit, scanHash, ScanDigit, ScanDigit, ScanDateTime] p1
        else if isDigit r then (Some ScanNumberOrDate, p1)
        else (Some ScanNumber, unread p1))"

subsection \<open>Keys\<close>

definition scanFieldAssign :: "parser \<Rightarrow> scanner option \<times> parser" where
  "scanFieldAssign p =
     (case readByte p of (r, p1) \<Rightarrow>
        if isSpace r then (Some ScanFieldAssign, p1)
        else if r = rune CHR ''='' then (Some ScanValue, p1)
        else expectRune (rune CHR ''='') p1)"

definition scanBareKey :: "golib \<Rightarrow> parser \<Rightarrow> scanner option \<times> parser" where
  "scanBareKey L p =
     (case readByte p of (r, p1) \<Rightarrow>
        if isBareKeyChar r then (Some ScanBareKey, p1)
        else if isSpace r then
          (case slice (- 1) p1 of (key, p2) \<Rightarrow>
             pushTableKey L key (pushScanner ScanFieldAssign p2))
        else if r = rune CHR ''='' then
          (case slice (- 1) p1 of (key, p2) \<Rightarrow>
             pushTableKey L key (pushScanner ScanValue p2))
        else expectStr ''bare character'' p1)"

definition scanKeyEnd :: "golib \<Rightarrow> parser \<Rightarrow> scanner option \<times> parser" where
  "scanKeyEnd L p =
     (case str_join p of (key, p1) \<Rightarrow> pushTableKey L key (pushScanner ScanFieldAssign p1))"

definition scanTableField :: "parser \<Rightarrow> scanner option \<times> parser" where
  "scanTableField p =
     (case readByte p of (r, p1) \<Rightarrow>
        if isSpace r then (Some ScanTableField, p1)
        else if isBareKeyChar r then (Some ScanBareKey, recordMark (- 1) p1)
        else if r = rune CHR ''='' then errorScanner (Msg ''key must be non-empty'') p1
        else if r = rune (CHR 0x22) then seqScanner [scanRecord0, ScanString, ScanKeyEnd] p1
        else if r = rune (CHR 0x27) then seqScanner [scanRecord0, ScanLiteral, ScanKeyEnd] p1
        else expectStr ''table field'' p1)"

section \<open>The driver\<close>

text \<open>Calling a state function.\<close>

fun step :: "golib \<Rightarrow> scanner \<Rightarrow> parser \<Rightarrow> scanner option \<times> parser" where
  "step L (ScanByte r) p = scanByte r p"
| "step L ScanDigit p = scanDigit p"
| "step L ScanConsumeBlank p = scanConsumeBlank p"
| "step L (ScanRecord n) p = scanRecord n p"
| "step L ScanEscapedRune p = scanEscapedRune p"
| "step L ScanLiteral p = scanLiteral p"
| "step L ScanMultiLineLiteral p = scanMultiLineLiteral p"
| "step L ScanMultiLineString p = scanMultiLineString p"
| "step L ScanComment p = scanComment p"
| "step L ScanArrayTableEnd p = scanArrayTableEnd L p"
| "step L ScanTableEnd p = scanTableEnd L p"
| "step L ScanTableStart p = scanTableStart p"
| "step L ScanString p = scanString p"
| "step L ScanTableNameString p = scanTableNameString p"
| "step L ScanTableNameStart p = scanTableNameStart p"
| "step L ScanTableNameInside p = scanTableNameInside p"
| "step L ScanTableNameEnd p = scanTableNameEnd p"
| "step L ScanTop p = scanTop p"
| "step L ScanTopEnd p = scanTopEnd p"
| "step L ScanInlineTableFieldEnd p = scanInlineTableFieldEnd p"
| "step L ScanInlineTableStart p = scanInlineTableStart L p"
| "step L ScanFloatFraction p = scanFloatFraction L p"
| "step L ScanFloatExponent p = scanFloatExponent L p"
| "step L ScanFloatExponentSign p = scanFloatExponentSign p"
| "step L ScanNumber p = scanNumber p"
| "step L ScanNumberStart p = scanNumberStart p"
| "step L SetStringValue p = setStringValue p"
| "step L ScanStringStart p = scanStringStart p"
| "step L ScanLiteralStart p = scanLiteralStart p"
| "step L ScanArrayValue p = scanArrayValue p"
| "step L ScanArrayStart p = scanArrayStart L p"
| "step L ScanArrayEnd p = scanArrayEnd p"
| "step L ScanValue p = scanValue p"
| "step L ScanDateEnd p = scanDateEnd L p"
| "step L ScanDateTimeEnd p = scanDateTimeEnd L p"
| "step L ScanDateTimeFraction p = scanDateTimeFraction p"
| "step L ScanDateTime p = scanDateTime L p"
| "step L ScanNumberOrDate p = scanNumberOrDate p"
| "step L ScanFieldAssign p = scanFieldAssign p"
| "step L ScanBareKey p = scanBareKey L p"
| "step L ScanKeyEnd p = scanKeyEnd L p"
| "step L ScanTableField p = scanTableField p"

text \<open>
  One turn of the loop of \<^verbatim>\<open>parser.parse\<close>: the backups are cleared and the state
  function is called; a panic ends the loop.
\<close>

definition turn :: "golib \<Rightarrow> scanner \<Rightarrow> parser \<Rightarrow> scanner option \<times> parser" where
  "turn L s p =
     (case step L s (clearBackups p) of (s1, p1) \<Rightarrow>
        if panicked p1 = None then (s1, p1) else (None, p1))"

text \<open>
  The loop itself may not end on every state, so it is a partial function: \<open>None\<close> is a
  run that never returns, \<open>Some p\<close> the parser when the next state function is \<^verbatim>\<open>nil\<close>.
\<close>

partial_function (option) drive :: "golib \<Rightarrow> scanner \<Rightarrow> parser \<Rightarrow> parser option" where
  "drive L s p =
     (case turn L s p of
        (None, p1) \<Rightarrow> Some p1
      | (Some s1, p1) \<Rightarrow> drive L s1 p1)"

definition newParser :: "string \<Rightarrow> parser" where
  "newParser s =
     \<lparr>mark = - 1, pos = 0, line = 1, input = s, backups = [],
      root = Table False [], envs = [\<lparr>env = InRoot [], path = []\<rparr>], keys = [], names = [],
      str = [],
      num = \<lparr>sign = [], exp_e = [], esign = [], integers = [], fractions = [], exponents = []\<rparr>,
      scanners = [], err = None, panicked = None\<rparr>"

text \<open>
  What \<^verbatim>\<open>parser.parse\<close> returns through \<^verbatim>\<open>errRecover\<close>: the \<^verbatim>\<open>ParseError\<close> of a panic,
  the panic itself when it is no error of the parser, or \<^verbatim>\<open>p.err\<close>.
\<close>

definition outcome :: "parser \<Rightarrow> failure + val" where
  "outcome p =
     (case panicked p of
        Some f \<Rightarrow> Inl f
      | None \<Rightarrow> (case err p of Some f \<Rightarrow> Inl f | None \<Rightarrow> Inr (root p)))"

text \<open>\<^verbatim>\<open>parse\<close>: the tree, or the error.\<close>

definition parse :: "golib \<Rightarrow> string \<Rightarrow> (failure + val) option" where
  "parse L data = map_option outcome (drive L ScanTop (newParser data))"

text \<open>
  A bounded number of turns of the loop: the state function that is next after \<open>n\<close>
  turns, or \<open>None\<close> when the loop ended before, and the parser then.
\<close>

fun run_turns :: "golib \<Rightarrow> nat \<Rightarrow> scanner \<Rightarrow> parser \<Rightarrow> scanner option \<times> parser" where
  "run_turns L 0 s p = (Some s, p)"
| "run_turns L (Suc n) s p =
     (case turn L s p of
        (None, p1) \<Rightarrow> (None, p1)
      | (Some s1, p1) \<Rightarrow> run_turns L n s1 p1)"

text \<open>
  The rest of the loop when a state function has returned: a panic or \<^verbatim>\<open>nil\<close> ends it,
  another state function is called next.
\<close>

definition resume :: "golib \<Rightarrow> scanner option \<times> parser \<Rightarrow> parser option" where
  "resume L x =
     (case x of (s1, r) \<Rightarrow>
        if panicked r = None then (case s1 of None \<Rightarrow> Some r | Some s \<Rightarrow> drive L s r)
        else Some r)"

section \<open>Running the parser\<close>

text \<open>
  The equations that unfold the engine, the tree builder and the state functions; with
  the equation of the driver they evaluate a run on a given document.
\<close>


lemmas prims = readByte_def stepN_def unread_def popScanner_def seqScanner_def recordMark_def slice_def
  raise_def errorf_def readRune_def peekRune_def peekByte_def tryReadByte_def tryReadPrefix_def
  skipNewline_def tryReadNewline_def clearBackups_def errorScanner_def setError_def expectRune_def
  expectStr_def normalizeKey_def combineKeyPath_def combineIndexPath_def envVal_def topEnv_def storeTop_def
  pushTableKey_def setValue_def resetEnv_def pushEnv_def popEnv_def pushScanner_def
  createTable_def createTableArray_def num_reset_def pushInteger_def pushFraction_def pushExponent_def
  num_join_def num_Integer_def str_push_def str_join_def isDigit_def isHex_def isSpace_def isBareKeyChar_def
  eof_def byte_string_def ParseInt_def dec_val_def digit_val_def RuneError_def cont_byte_def
lemmas scans = scanByte_def scanDigit_def scanConsumeBlank_def scanRecord_def scanReturnString_def
  scanUnicodeRune_def scanEscapedRune_def scanLiteral_def scanMultiLineLiteral_def scanMultiLineString_def
  scanComment_def scanArrayTableEnd_def scanTableEnd_def scanTableStart_def scanString_def appendTableName_def
  scanTableNameString_def scanTableNameStart_def scanTableNameInside_def scanTableNameEnd_def scanTop_def
  scanTopEnd_def scanInlineTableFieldEnd_def scanInlineTableStart_def setFloatValue_def setIntegerValue_def
  setStringValue_def scanFloatFraction_def scanFloatExponent_def scanFloatExponentSign_def scanNumber_def
  scanNumberStart_def scanStringStart_def scanLiteralStart_def scanArrayValue_def scanArrayStart_def
  scanArrayEnd_def scanValue_def scanDateValue_def scanDateEnd_def scanDateTimeEnd_def scanDateTimeFraction_def
  scanDateTime_def scanNumberOrDate_def scanFieldAssign_def scanBareKey_def scanKeyEnd_def scanTableField_def
  turn_def newParser_def outcome_def parse_def

section \<open>Lemmas on the engine\<close>

lemma drive_run_turns:
  "drive L s p = (case run_turns L n s p of (None, p1) \<Rightarrow> Some p1 | (Some s1, p1) \<Rightarrow> drive L s1 p1)"
proof (induction n arbitrary: s p)
  case 0
  show ?case by simp
next
  case (Suc n)
  show ?case
  proof (cases "turn L s p")
    case (Pair a p1)
    show ?thesis
    proof (cases a)
      case None
      with Pair show ?thesis by (subst drive.simps) simp
    next
      case (Some s1)
      with Pair Suc [of s1 p1] show ?thesis by (subst drive.simps) simp
    qed
  qed
qed

lemma drop_Cons_nth:
  assumes "drop n xs = c # r"
  shows "n < length xs" and "xs ! n = c" and "drop (Suc n) xs = r"
proof -
  show a: "n < length xs" using assms by (metis drop_all list.distinct(1) not_le)
  show "xs ! n = c" using assms a by (metis Cons_nth_drop_Suc list.inject)
  show "drop (Suc n) xs = r" using assms a by (metis Cons_nth_drop_Suc list.inject)
qed

lemma readByte_Cons:
  assumes "drop (pos p) (input p) = c # r"
  shows "readByte p = (rune c, stepN 1 p)"
  using drop_Cons_nth [OF assms] by (simp add: readByte_def)

lemma readByte_Nil:
  assumes "drop (pos p) (input p) = []"
  shows "readByte p = (eof, stepN 0 p)"
  using assms by (simp add: readByte_def)

lemma isDigit_not_eof: "isDigit r \<Longrightarrow> r \<noteq> eof"
  by (auto simp: isDigit_def eof_def)

lemma run_turns_add:
  "run_turns L (m + n) s p =
     (case run_turns L m s p of (None, p1) \<Rightarrow> (None, p1) | (Some s1, p1) \<Rightarrow> run_turns L n s1 p1)"
  by (induction m arbitrary: s p) (auto split: prod.splits option.splits)

lemma run_turns_numeral:
  "run_turns L (numeral k) s p =
     (case turn L s p of
        (None, p1) \<Rightarrow> (None, p1)
      | (Some s1, p1) \<Rightarrow> run_turns L (pred_numeral k) s1 p1)"
  by (simp add: numeral_eq_Suc)

lemma readByte_cleared:
  assumes "drop (pos p) (input p) = c # r"
  shows "readByte (clearBackups p) = (rune c, p\<lparr>pos := pos p + 1, backups := [1]\<rparr>)"
proof -
  have "drop (pos (clearBackups p)) (input (clearBackups p)) = c # r"
    using assms by (simp add: clearBackups_def)
  from readByte_Cons [OF this] show ?thesis by (simp add: stepN_def clearBackups_def)
qed

lemma readByte_cleared_end:
  assumes "drop (pos p) (input p) = []"
  shows "readByte (clearBackups p) = (eof, p\<lparr>backups := [0]\<rparr>)"
proof -
  have "drop (pos (clearBackups p)) (input (clearBackups p)) = []"
    using assms by (simp add: clearBackups_def)
  from readByte_Nil [OF this] show ?thesis by (simp add: stepN_def clearBackups_def)
qed

lemma rune_dash: "rune CHR ''-'' = 45"
  by simp

lemma rune_eq_dash: "rune c = 45 \<longleftrightarrow> c = CHR ''-''"
proof
  assume "rune c = (45::nat)"
  then have "(of_char c :: nat) = of_char CHR ''-''" by simp
  then show "c = CHR ''-''" by (simp only: of_char_eq_iff)
qed simp

section \<open>Newlines inside an array literal\<close>

text \<open>
  Claim C3. Inside a bracketed array literal a newline may stand before an element,
  after an element (before the separator or the closing bracket) and after a
  separator, without an error and without a change of the array.

  The state function \<^verbatim>\<open>scanArrayValue\<close>, which runs before an element and after a
  separator, skips a newline with \<^verbatim>\<open>isSpace(r) || p.skipNewline(r)\<close>. The state function
  \<^verbatim>\<open>scanArrayEnd\<close>, which runs after an element, skips \<^verbatim>\<open>isSpace(r)\<close> only. On the
  document of the two lines \<^verbatim>\<open>x = [1\<close> and \<^verbatim>\<open>]\<close> the parse is an error at line 1,
  position 6, where the line feed (rune 10) stands after the element.
\<close>

theorem C3_newline_after_element_rejected:
  "parse L (''x = [1'' @ [CHR 0x0A] @ '']'') =
     Some (Inl (ParseError 1 6
       (Expect [CHR 0x27, CHR '','', CHR 0x27, CHR '' '', CHR ''o'', CHR ''r'', CHR '' '',
                CHR 0x27, CHR '']'', CHR 0x27] 10)))"
  by (simp add: prims scans drive.simps Let_def)

text \<open>
  The same array with the newline after the separator, or before the first element, or
  with a blank instead of the newline, is parsed.
\<close>

lemma array_newline_after_separator:
  "parse L (''x = [1,'' @ [CHR 0x0A] @ ''2]'') =
     Some (Inr (Table False [(''x'', Array True [Integer 1, Integer 2])]))"
  by (simp add: prims scans drive.simps Let_def)

lemma array_newline_before_element:
  "parse L (''x = ['' @ [CHR 0x0A] @ ''1]'') =
     Some (Inr (Table False [(''x'', Array True [Integer 1])]))"
  by (simp add: prims scans drive.simps Let_def)

lemma array_blank_after_element:
  "parse L ''x = [1 ]'' = Some (Inr (Table False [(''x'', Array True [Integer 1])]))"
  by (simp add: prims scans drive.simps Let_def)


section \<open>Duplicate keys\<close>

text \<open>
  \<^verbatim>\<open>pushTableKey\<close> refuses a key that the table of the top environment already binds,
  whatever the type of the bound value; the error carries the line counter and the
  position of the parser, and the state is not changed otherwise.
\<close>

lemma pushTableKey_duplicate:
  assumes "topEnv p = Some (Table imp elems, pth)" and "map_of elems key = Some v"
  shows "pushTableKey L key p =
           (None, p\<lparr>err := Some (ParseError (line p) (pos p)
                                   (KeyDefined pth (normalizeKey L key) (Type v)))\<rparr>)"
  using assms by (simp add: pushTableKey_def errorScanner_def errorf_def)

lemma duplicate_key_same_type:
  "parse L (''a = 1'' @ [CHR 0x0A] @ ''a = 2'') =
     Some (Inl (ParseError 2 8 (KeyDefined [] ''a'' ''integer'')))"
  by (simp add: prims scans drive.simps Let_def)

lemma duplicate_key_other_type:
  "parse L (''a = 1'' @ [CHR 0x0A] @ ''a = true'') =
     Some (Inl (ParseError 2 8 (KeyDefined [] ''a'' ''integer'')))"
  by (simp add: prims scans drive.simps Let_def)

lemma duplicate_key_inline_table:
  "parse L ''t = {a = 1, a = 2}'' =
     Some (Inl (ParseError 1 14 (KeyDefined ''t'' ''a'' ''integer'')))"
  by (simp add: prims scans drive.simps Let_def)

text \<open>
  Claim C7. Every input that assigns the same key twice within the same table is a
  parse error, whatever the types of the two values, and the error carries the line of
  the second occurrence; so every key of a parsed table is unique.

  The duplicate is always refused, but the line of the error is the line counter of the
  parser, which \<^verbatim>\<open>skipNewline\<close> alone advances. \<^verbatim>\<open>scanMultiLineString\<close> and
  \<^verbatim>\<open>scanMultiLineLiteral\<close> read a line break inside a multi-line string in their default
  branch, without \<^verbatim>\<open>skipNewline\<close>. In the document of the four lines
  \<^verbatim>\<open>s = """a\<close>, \<^verbatim>\<open>b"""\<close>, \<^verbatim>\<open>a = 1\<close>, \<^verbatim>\<open>a = 2\<close> the second \<^verbatim>\<open>a\<close> is on line 4, and the
  error says line 3.
\<close>

theorem C7_duplicate_line_after_multiline_string:
  "parse L (''s = '' @ [CHR 0x22, CHR 0x22, CHR 0x22] @ ''a'' @ [CHR 0x0A] @ ''b''
              @ [CHR 0x22, CHR 0x22, CHR 0x22, CHR 0x0A] @ ''a = 1'' @ [CHR 0x0A] @ ''a = 2'') =
     Some (Inl (ParseError 3 22 (KeyDefined [] ''a'' ''integer'')))"
  by (simp add: prims scans drive.simps Let_def)


section \<open>A NUL byte where a statement may begin\<close>

lemma scanTop_at_nul:
  assumes "pos p < length (input p)" and "input p ! pos p = CHR 0x00"
  shows "scanTop p = (None, stepN 1 p)"
  using assms by (simp add: scanTop_def readByte_def skipNewline_def isSpace_def eof_def)

lemma scanTop_at_end:
  assumes "length (input p) \<le> pos p"
  shows "scanTop p = (None, stepN 0 p)"
  using assms by (simp add: scanTop_def readByte_def skipNewline_def isSpace_def eof_def)

text \<open>
  Claim C10. A NUL byte at a position where a statement may begin, that is when the
  state function is \<^verbatim>\<open>scanTop\<close>, is the same to the scanner as the end of the input:
  the parse returns the tree built so far, without an error, and ignores the NUL and
  every byte after it.

  Stated on any parser \<open>p\<close> that is about to run \<^verbatim>\<open>scanTop\<close> with a NUL under the
  cursor, no error and no panic: the driver returns, its result is the tree of \<open>p\<close>, and
  so is its result on the input cut before the NUL.
\<close>

theorem C10_nul_at_statement_start_ends_parse:
  assumes "pos p < length (input p)" and "input p ! pos p = CHR 0x00"
    and "panicked p = None" and "err p = None"
  shows "map_option outcome (drive L ScanTop p) = Some (Inr (root p))
       \<and> map_option outcome (drive L ScanTop (p\<lparr>input := take (pos p) (input p)\<rparr>))
           = Some (Inr (root p))"
proof -
  have a: "turn L ScanTop p = (None, stepN 1 (clearBackups p))"
    using assms by (simp add: turn_def scanTop_at_nul clearBackups_def stepN_def)
  have b: "turn L ScanTop (p\<lparr>input := take (pos p) (input p)\<rparr>)
             = (None, stepN 0 (clearBackups (p\<lparr>input := take (pos p) (input p)\<rparr>)))"
    using assms by (simp add: turn_def scanTop_at_end clearBackups_def stepN_def)
  show ?thesis
    using assms by (simp add: drive.simps a b outcome_def stepN_def clearBackups_def)
qed

theorem C10_witness:
  "\<forall>L. map_option outcome (drive L ScanTop (newParser [CHR 0x00, CHR ''x'']))
         = Some (Inr (Table False []))"
  using C10_nul_at_statement_start_ends_parse [of "newParser [CHR 0x00, CHR ''x'']"]
  by (simp add: newParser_def)

text \<open>
  On whole documents: a NUL as the first byte, or as the first byte of a line, ends the
  parse, whatever follows it. A NUL right after a value is read by \<^verbatim>\<open>scanTopEnd\<close>, not by
  \<^verbatim>\<open>scanTop\<close>: there it ends the statement as a newline does, and the parse goes on.
\<close>

lemma nul_first_byte: "parse L (CHR 0x00 # rest) = Some (Inr (Table False []))"
  by (simp add: prims scans drive.simps Let_def)

lemma nul_first_byte_of_line:
  "parse L (''a = 1'' @ [CHR 0x0A, CHR 0x00] @ rest) =
     Some (Inr (Table False [(''a'', Integer 1)]))"
  by (simp add: prims scans drive.simps Let_def)

lemma nul_after_value:
  "parse L (''a = 1'' @ [CHR 0x00] @ ''b = 2'') =
     Some (Inr (Table False [(''a'', Integer 1), (''b'', Integer 2)]))"
  by (simp add: prims scans drive.simps Let_def)

section \<open>Number or date\<close>

text \<open>
  A value that begins with a digit: \<^verbatim>\<open>scanValue\<close> records the mark and goes to
  \<^verbatim>\<open>scanNumberOrDate\<close>, which stays in its state on every digit and decides on the
  first byte that is none.
\<close>

lemma scanValue_digit:
  assumes "readByte q = (r, q1)" and "isDigit r"
  shows "scanValue q = (Some ScanNumberOrDate, recordMark (- 1) q1)"
proof -
  have d: "48 \<le> r" "r \<le> 57" using assms(2) by (simp_all add: isDigit_def)
  have ne: "r \<noteq> 91" "r \<noteq> 123" "r \<noteq> 116" "r \<noteq> 102" "r \<noteq> 34" "r \<noteq> 39" "r \<noteq> 43" "r \<noteq> 45"
    using d by simp_all
  show ?thesis using assms ne by (simp add: scanValue_def)
qed

lemma scanNumberOrDate_digit:
  assumes "readByte q = (r, q1)" and "isDigit r"
  shows "scanNumberOrDate q = (Some ScanNumberOrDate, q1)"
proof -
  have "r \<noteq> 45" using assms(2) by (simp add: isDigit_def)
  then show ?thesis using assms by (simp add: scanNumberOrDate_def)
qed

lemma scanNumberOrDate_dash:
  assumes "readByte q = (45, q1)"
  shows "scanNumberOrDate q =
           seqScanner [ScanDigit, ScanDigit, scanHash, ScanDigit, ScanDigit, ScanDateTime] q1"
  using assms by (simp add: scanNumberOrDate_def)

lemma scanNumberOrDate_other:
  assumes "readByte q = (r, q1)" and "\<not> isDigit r" and "r \<noteq> 45"
  shows "scanNumberOrDate q = (Some ScanNumber, unread q1)"
  using assms by (simp add: scanNumberOrDate_def)

lemma turn_ScanValue_digit:
  assumes "drop (pos p) (input p) = c # r" and "isDigit (rune c)" and "panicked p = None"
  shows "turn L ScanValue p =
           (Some ScanNumberOrDate, p\<lparr>mark := int (pos p), pos := pos p + 1, backups := [1]\<rparr>)"
  using assms(3)
  by (simp add: turn_def scanValue_digit [OF readByte_cleared [OF assms(1)] assms(2)]
      recordMark_def)

lemma turn_NOD_digit:
  assumes "drop (pos p) (input p) = c # r" and "isDigit (rune c)" and "panicked p = None"
  shows "turn L ScanNumberOrDate p =
           (Some ScanNumberOrDate, p\<lparr>pos := pos p + 1, backups := [1]\<rparr>)"
  using assms(3)
  by (simp add: turn_def scanNumberOrDate_digit [OF readByte_cleared [OF assms(1)] assms(2)])

lemma turn_NOD_dash:
  assumes "drop (pos p) (input p) = CHR ''-'' # r" and "panicked p = None"
  shows "turn L ScanNumberOrDate p =
           (Some ScanDigit,
            p\<lparr>pos := pos p + 1, backups := [1],
              scanners := [ScanDigit, scanHash, ScanDigit, ScanDigit, ScanDateTime] @ scanners p\<rparr>)"
proof -
  have rb: "readByte (clearBackups p) = (45, p\<lparr>pos := pos p + 1, backups := [1]\<rparr>)"
    using readByte_cleared [OF assms(1)] by simp
  show ?thesis
    using assms(2)
    by (simp add: turn_def scanNumberOrDate_dash [OF rb] seqScanner_def popScanner_def)
qed

lemma turn_NOD_other:
  assumes "drop (pos p) (input p) = c # r" and "\<not> isDigit (rune c)" and "c \<noteq> CHR ''-''"
    and "panicked p = None"
  shows "turn L ScanNumberOrDate p = (Some ScanNumber, p\<lparr>backups := []\<rparr>)"
proof -
  have ne: "rune c \<noteq> (45::nat)" using assms(3) by (simp add: rune_eq_dash)
  show ?thesis
    using assms(4)
    by (simp add: turn_def
        scanNumberOrDate_other [OF readByte_cleared [OF assms(1)] assms(2) ne] unread_def)
qed

lemma turn_NOD_end:
  assumes "drop (pos p) (input p) = []" and "panicked p = None"
  shows "turn L ScanNumberOrDate p = (Some ScanNumber, p\<lparr>backups := []\<rparr>)"
proof -
  have a: "\<not> isDigit eof" "eof \<noteq> 45" by (simp_all add: isDigit_def eof_def)
  show ?thesis
    using assms(2)
    by (simp add: turn_def
        scanNumberOrDate_other [OF readByte_cleared_end [OF assms(1)] a] unread_def)
qed

lemma run_NOD_digits:
  assumes "list_all (\<lambda>c. isDigit (rune c)) ds" and "drop (pos p) (input p) = ds @ rest"
    and "panicked p = None"
  shows "run_turns L (length ds) ScanNumberOrDate p =
           (Some ScanNumberOrDate,
            if ds = [] then p else p\<lparr>pos := pos p + length ds, backups := [1]\<rparr>)"
  using assms
proof (induction ds arbitrary: p)
  case Nil
  show ?case by simp
next
  case (Cons d ds)
  let ?p1 = "p\<lparr>pos := pos p + 1, backups := [1]\<rparr>"
  have dr: "drop (pos p) (input p) = d # (ds @ rest)" using Cons.prems(2) by simp
  have dg: "isDigit (rune d)" and dgs: "list_all (\<lambda>c. isDigit (rune c)) ds"
    using Cons.prems(1) by simp_all
  have t: "turn L ScanNumberOrDate p = (Some ScanNumberOrDate, ?p1)"
    by (rule turn_NOD_digit [OF dr dg Cons.prems(3)])
  have dr1: "drop (pos ?p1) (input ?p1) = ds @ rest"
    using drop_Cons_nth(3) [OF dr] by simp
  have pn: "panicked ?p1 = None" using Cons.prems(3) by simp
  have ih: "run_turns L (length ds) ScanNumberOrDate ?p1 =
              (Some ScanNumberOrDate,
               if ds = [] then ?p1 else ?p1\<lparr>pos := pos ?p1 + length ds, backups := [1]\<rparr>)"
    by (rule Cons.IH [OF dgs dr1 pn])
  show ?case using ih by (simp add: t)
qed

text \<open>
  The sentence of the specification, "the date branch is taken if and only if the fifth
  character is \<^verbatim>\<open>-\<close>", does not hold of \<^verbatim>\<open>scanNumberOrDate\<close>: it counts no digits. On
  \<^verbatim>\<open>12345-06-07\<close> the fifth character is \<^verbatim>\<open>5\<close> and the scanner is in the date sequence
  after six turns; on \<^verbatim>\<open>x = 1-\<close> the parse fails in the date sequence, which wants a digit
  of the month, where a number would have ended before the \<^verbatim>\<open>-\<close>.
\<close>

theorem C4_five_digits_then_dash:
  "\<forall>L. fst (run_turns L 6 ScanValue (newParser ''12345-06-07'')) = Some ScanDigit
      \<and> scanners (snd (run_turns L 6 ScanValue (newParser ''12345-06-07'')))
          = [ScanDigit, scanHash, ScanDigit, ScanDigit, ScanDateTime]
      \<and> parse L ''x = 1-'' = Some (Inl (ParseError 1 6 (Expect ''digit'' 0)))"
  by (simp add: prims scans drive.simps Let_def run_turns_numeral)

text \<open>
  Claim C4, as the code has it. For a value that begins with an unsigned digit, the
  scanner takes the date branch if and only if the first byte after the leading run of
  digits is \<^verbatim>\<open>-\<close>, however long the run is; otherwise it goes on as a number, from the
  byte after the run, with the mark on the first digit.

  Stated on any parser \<open>p\<close> about to run \<^verbatim>\<open>scanValue\<close> on a digit \<open>d0\<close>, further digits
  \<open>ds\<close> and a rest that is empty or begins with no digit: after \<open>length ds + 2\<close> turns of
  the loop the next state is \<^verbatim>\<open>scanDigit\<close> with the rest of the date sequence on the
  stack when the rest begins with \<^verbatim>\<open>-\<close>, and \<^verbatim>\<open>scanNumber\<close> with the stack unchanged
  otherwise.
\<close>

theorem C4_date_branch:
  assumes "drop (pos p) (input p) = d0 # ds @ rest"
    and "isDigit (rune d0)"
    and "list_all (\<lambda>c. isDigit (rune c)) ds"
    and "rest = [] \<or> \<not> isDigit (rune (hd rest))"
    and "panicked p = None"
  shows "run_turns L (length ds + 2) ScanValue p =
           (if rest \<noteq> [] \<and> hd rest = CHR ''-''
            then (Some ScanDigit,
                  p\<lparr>mark := int (pos p), pos := pos p + length ds + 2, backups := [1],
                    scanners := [ScanDigit, scanHash, ScanDigit, ScanDigit, ScanDateTime]
                                @ scanners p\<rparr>)
            else (Some ScanNumber,
                  p\<lparr>mark := int (pos p), pos := pos p + length ds + 1, backups := []\<rparr>))"
proof -
  let ?p0 = "p\<lparr>mark := int (pos p), pos := pos p + 1, backups := [1]\<rparr>"
  let ?p1 = "p\<lparr>mark := int (pos p), pos := pos p + length ds + 1, backups := [1]\<rparr>"
  have t0: "turn L ScanValue p = (Some ScanNumberOrDate, ?p0)"
    by (rule turn_ScanValue_digit [OF assms(1,2,5)])
  have dr0: "drop (pos ?p0) (input ?p0) = ds @ rest"
    using drop_Cons_nth(3) [OF assms(1)] by simp
  have pn0: "panicked ?p0 = None" using assms(5) by simp
  have lp: "run_turns L (length ds) ScanNumberOrDate ?p0 = (Some ScanNumberOrDate, ?p1)"
    using run_NOD_digits [OF assms(3) dr0 pn0, of L] by (cases ds) simp_all
  have dr1: "drop (pos ?p1) (input ?p1) = rest"
  proof -
    have "drop (pos p + 1 + length ds) (input p) = drop (length ds) (drop (pos p + 1) (input p))"
      by (simp add: add.commute)
    also have "\<dots> = rest" using dr0 by simp
    finally show ?thesis by (simp add: add.commute add.left_commute)
  qed
  have pn1: "panicked ?p1 = None" using assms(5) by simp
  have split: "run_turns L (length ds + 2) ScanValue p =
                 (case turn L ScanNumberOrDate ?p1 of
                    (None, q) \<Rightarrow> (None, q) | (Some s1, q) \<Rightarrow> (Some s1, q))"
  proof -
    have "run_turns L (length ds + 2) ScanValue p = run_turns L (Suc (length ds + 1)) ScanValue p"
      by simp
    also have "\<dots> = run_turns L (length ds + 1) ScanNumberOrDate ?p0"
      by (simp only: run_turns.simps t0 prod.case option.case)
    also have "\<dots> = run_turns L 1 ScanNumberOrDate ?p1"
      by (simp only: run_turns_add lp prod.case option.case)
    also have "\<dots> = (case turn L ScanNumberOrDate ?p1 of
                    (None, q) \<Rightarrow> (None, q) | (Some s1, q) \<Rightarrow> (Some s1, q))"
      by (simp split: prod.splits option.splits)
    finally show ?thesis .
  qed
  show ?thesis
  proof (cases rest)
    case Nil
    then have "drop (pos ?p1) (input ?p1) = []" using dr1 by simp
    from turn_NOD_end [OF this pn1, of L] Nil show ?thesis unfolding split by simp
  next
    case (Cons c r)
    then have drc: "drop (pos ?p1) (input ?p1) = c # r" using dr1 by simp
    have nd: "\<not> isDigit (rune c)" using assms(4) Cons by simp
    show ?thesis
    proof (cases "c = CHR ''-''")
      case True
      then have "drop (pos ?p1) (input ?p1) = CHR ''-'' # r" using drc by simp
      from turn_NOD_dash [OF this pn1, of L] Cons True show ?thesis unfolding split by simp
    next
      case False
      from turn_NOD_other [OF drc nd False pn1, of L] Cons False show ?thesis
        unfolding split by simp
    qed
  qed
qed

theorem C4_witness:
  "\<forall>L. run_turns L 5 ScanValue (newParser ''1979-05-27'') =
         (Some ScanDigit,
          (newParser ''1979-05-27'')
            \<lparr>mark := 0, pos := 5, backups := [1],
              scanners := [ScanDigit, scanHash, ScanDigit, ScanDigit, ScanDateTime]\<rparr>)"
  using C4_date_branch [of "newParser ''1979-05-27''" "CHR ''1''" "''979''" "''-05-27''"]
  by (simp add: newParser_def isDigit_def eval_nat_numeral del: run_turns.simps)
section \<open>Integer literals\<close>

text \<open>\<^verbatim>\<open>strconv.ParseInt\<close> on a run of digits, bare or with a sign.\<close>

lemma ParseInt_digits:
  assumes "s \<noteq> []" and "list_all (\<lambda>c. isDigit (rune c)) s"
  shows "ParseInt s = (if dec_val s < 2 ^ 63 then Inr (int (dec_val s)) else Inl ErrRange)"
    and "ParseInt (CHR ''+'' # s) = (if dec_val s < 2 ^ 63 then Inr (int (dec_val s)) else Inl ErrRange)"
    and "ParseInt (CHR ''-'' # s) = (if dec_val s \<le> 2 ^ 63 then Inr (- int (dec_val s)) else Inl ErrRange)"
proof -
  obtain c cs where s: "s = c # cs" using assms(1) by (cases s) auto
  have c: "isDigit (rune c)" using assms(2) s by simp
  have c1: "c \<noteq> CHR ''+''" "c \<noteq> CHR ''-''" using c by (auto simp: isDigit_def)
  have h: "hd s = c" using s by simp
  show "ParseInt s = (if dec_val s < 2 ^ 63 then Inr (int (dec_val s)) else Inl ErrRange)"
    unfolding ParseInt_def Let_def using assms c1 h by (simp add: not_le)
  show "ParseInt (CHR ''+'' # s) = (if dec_val s < 2 ^ 63 then Inr (int (dec_val s)) else Inl ErrRange)"
    unfolding ParseInt_def Let_def using assms by (simp add: not_le)
  show "ParseInt (CHR ''-'' # s) = (if dec_val s \<le> 2 ^ 63 then Inr (- int (dec_val s)) else Inl ErrRange)"
    unfolding ParseInt_def Let_def using assms by (simp add: not_less)
qed

text \<open>
  \<^verbatim>\<open>numParser.Integer\<close> on an accumulator whose parts join to a non-empty run of digits.
\<close>

lemma num_Integer_digits:
  assumes "s = concat (integers n)" and "s \<noteq> []" and "list_all (\<lambda>c. isDigit (rune c)) s"
    and "sign n \<in> {[], ''+'', ''-''}"
  shows "num_Integer n =
     (if hd s = CHR ''0'' \<and> s \<noteq> ''0'' then Inr (Inl (LeadingZero s))
      else if sign n = ''-'' then
        (if dec_val s \<le> 2 ^ 63 then Inr (Inr (- int (dec_val s)))
         else Inr (Inl (IntError ErrRange (sign n @ s))))
      else
        (if dec_val s < 2 ^ 63 then Inr (Inr (int (dec_val s)))
         else Inr (Inl (IntError ErrRange (sign n @ s)))))"
proof -
  have eq: "num_Integer n =
      (if s \<noteq> ''0'' \<and> hd s = CHR ''0'' then Inr (Inl (LeadingZero s))
       else (case ParseInt (sign n @ s) of
               Inl e \<Rightarrow> Inr (Inl (IntError e (sign n @ s)))
             | Inr i \<Rightarrow> Inr (Inr i)))"
  proof -
    have c: "concat (integers n) = s" using assms(1) by simp
    show ?thesis unfolding num_Integer_def Let_def c using assms(2) by simp
  qed
  consider "sign n = []" | "sign n = ''+''" | "sign n = ''-''" using assms(4) by blast
  then show ?thesis
  proof cases
    case 1
    then show ?thesis unfolding eq using ParseInt_digits(1) [OF assms(2,3)] by simp
  next
    case 2
    then show ?thesis unfolding eq using ParseInt_digits(2) [OF assms(2,3)] by simp
  next
    case 3
    then show ?thesis unfolding eq using ParseInt_digits(3) [OF assms(2,3)] by simp
  qed
qed

subsection \<open>The turns of the loop on a number\<close>

lemma drive_step: "turn L s p = (Some s1, p1) \<Longrightarrow> drive L s p = drive L s1 p1"
  by (subst drive.simps) simp

lemma drive_stop: "turn L s p = (None, p1) \<Longrightarrow> drive L s p = Some p1"
  by (subst drive.simps) simp

lemma rune_neq: "c \<noteq> d \<Longrightarrow> rune c \<noteq> (rune d :: nat)"
  by (simp only: of_char_eq_iff not_False_eq_True)

lemma byte_string_rune: "byte_string (rune c) = [c]"
  by (simp add: byte_string_def)

lemma scanNumber_digit:
  assumes "readByte q = (r, q1)" and "isDigit r"
  shows "scanNumber q = (Some ScanNumber, q1)"
  using assms by (simp add: scanNumber_def)

lemma scanNumber_underscore:
  assumes "readByte q = (95, q1)"
  shows "scanNumber q =
           (case slice (- 1) q1 of (s, p2) \<Rightarrow>
              seqScanner [scanRecord0, ScanDigit, ScanNumber] (pushInteger s p2))"
  using assms by (simp add: scanNumber_def isDigit_def)

lemma scanNumber_end:
  assumes "readByte q = (r, q1)" and "\<not> isDigit r" and "r \<noteq> 95" and "r \<noteq> 46"
    and "r \<noteq> 101" and "r \<noteq> 69"
  shows "scanNumber q = (case slice 0 (unread q1) of (s, p2) \<Rightarrow> setIntegerValue (pushInteger s p2))"
  using assms by (simp add: scanNumber_def)

lemma scanDigit_digit:
  assumes "readByte q = (r, q1)" and "isDigit r"
  shows "scanDigit q = popScanner q1"
  using assms by (simp add: scanDigit_def)

lemma turn_ScanNumber_digit:
  assumes "drop (pos p) (input p) = c # r" and "isDigit (rune c)" and "panicked p = None"
  shows "turn L ScanNumber p = (Some ScanNumber, p\<lparr>pos := pos p + 1, backups := [1]\<rparr>)"
  using assms(3)
  by (simp add: turn_def scanNumber_digit [OF readByte_cleared [OF assms(1)] assms(2)])

lemma turn_ScanDigit_digit:
  assumes "drop (pos p) (input p) = c # r" and "isDigit (rune c)" and "panicked p = None"
    and "scanners p = s # ss"
  shows "turn L ScanDigit p = (Some s, p\<lparr>pos := pos p + 1, backups := [1], scanners := ss\<rparr>)"
  using assms(3,4)
  by (simp add: turn_def scanDigit_digit [OF readByte_cleared [OF assms(1)] assms(2)]
      popScanner_def)

lemma turn_ScanRecord0:
  assumes "panicked p = None" and "scanners p = s # ss"
  shows "turn L (ScanRecord 0) p =
           (Some s, p\<lparr>mark := int (pos p), backups := [], scanners := ss\<rparr>)"
  using assms
  by (simp add: turn_def scanRecord_def recordMark_def popScanner_def clearBackups_def)

lemma turn_ScanNumberStart:
  assumes "panicked p = None"
  shows "turn L ScanNumberStart p =
           (Some (ScanRecord 0),
            p\<lparr>backups := [], scanners := ScanDigit # ScanNumber # scanners p\<rparr>)"
  using assms
  by (simp add: turn_def scanNumberStart_def seqScanner_def popScanner_def clearBackups_def)

lemma turn_ScanNumber_underscore:
  assumes "drop (pos p) (input p) = CHR ''_'' # r" and "panicked p = None"
    and "mark p = int m" and "m \<le> pos p"
  shows "turn L ScanNumber p =
           (Some (ScanRecord 0),
            p\<lparr>mark := - 1, pos := pos p + 1, backups := [1],
              num := (num p)\<lparr>integers := integers (num p) @ [take (pos p - m) (drop m (input p))]\<rparr>,
              scanners := ScanDigit # ScanNumber # scanners p\<rparr>)"
proof -
  have rb: "readByte (clearBackups p) = (95, p\<lparr>pos := pos p + 1, backups := [1]\<rparr>)"
    using readByte_cleared [OF assms(1)] by simp
  have lt: "pos p < length (input p)" by (rule drop_Cons_nth(1) [OF assms(1)])
  have nd: "nat (int (pos p) - int m) = pos p - m" by arith
  show ?thesis
    using assms(2,3,4) lt
    by (simp add: turn_def scanNumber_underscore [OF rb] slice_def Let_def seqScanner_def
        popScanner_def pushInteger_def nd)
qed

lemma ScanNumber_digits:
  assumes "list_all (\<lambda>c. isDigit (rune c)) ds" and "drop (pos p) (input p) = ds @ rest"
    and "panicked p = None"
  shows "drive L ScanNumber p =
           drive L ScanNumber
             (if ds = [] then p else p\<lparr>pos := pos p + length ds, backups := [1]\<rparr>)"
  using assms
proof (induction ds arbitrary: p)
  case Nil
  show ?case by simp
next
  case (Cons d ds)
  let ?p1 = "p\<lparr>pos := pos p + 1, backups := [1]\<rparr>"
  have dr: "drop (pos p) (input p) = d # (ds @ rest)" using Cons.prems(2) by simp
  have dg: "isDigit (rune d)" and dgs: "list_all (\<lambda>c. isDigit (rune c)) ds"
    using Cons.prems(1) by simp_all
  have t: "drive L ScanNumber p = drive L ScanNumber ?p1"
    by (rule drive_step [OF turn_ScanNumber_digit [OF dr dg Cons.prems(3)]])
  have dr1: "drop (pos ?p1) (input ?p1) = ds @ rest"
    using drop_Cons_nth(3) [OF dr] by simp
  have pn: "panicked ?p1 = None" using Cons.prems(3) by simp
  have ih: "drive L ScanNumber ?p1 =
              drive L ScanNumber
                (if ds = [] then ?p1 else ?p1\<lparr>pos := pos ?p1 + length ds, backups := [1]\<rparr>)"
    by (rule Cons.IH [OF dgs dr1 pn])
  show ?case unfolding t ih by simp
qed

lemma drive_resume:
  assumes "turn L s p = (case x of (s1, p1) \<Rightarrow> if panicked p1 = None then (s1, p1) else (None, p1))"
  shows "drive L s p = resume L x"
  by (subst drive.simps) (simp add: assms resume_def split: prod.splits option.splits)

lemma turn_ScanNumber_end:
  assumes "drop (pos p) (input p) = rest"
    and "rest = [] \<or> (\<not> isDigit (rune (hd rest)) \<and> hd rest \<notin> set ''_.eE'')"
    and "mark p = int m" and "m \<le> pos p" and "pos p \<le> length (input p)"
    and "panicked p = None"
  shows "turn L ScanNumber p =
           (case setIntegerValue
                   (p\<lparr>mark := - 1, backups := [],
                      num := (num p)\<lparr>integers := integers (num p)
                                @ [take (pos p - m) (drop m (input p))]\<rparr>\<rparr>) of
              (s1, p1) \<Rightarrow> if panicked p1 = None then (s1, p1) else (None, p1))"
proof (cases rest)
  case Nil
  have a: "\<not> isDigit eof" "eof \<noteq> 95" "eof \<noteq> 46" "eof \<noteq> 101" "eof \<noteq> 69"
    by (simp_all add: isDigit_def eof_def)
  have dr: "drop (pos p) (input p) = []" using assms(1) Nil by simp
  have nd: "nat (int (pos p) - int m) = pos p - m" by arith
  have u: "unread (p\<lparr>backups := [0]\<rparr>) = p\<lparr>backups := []\<rparr>"
    by (simp add: unread_def)
  have sl: "slice 0 (p\<lparr>backups := []\<rparr>)
              = (take (pos p - m) (drop m (input p)), p\<lparr>mark := - 1, backups := []\<rparr>)"
    using assms(3,4,5) by (simp add: slice_def Let_def nd)
  show ?thesis
    by (simp add: turn_def scanNumber_end [OF readByte_cleared_end [OF dr] a] u sl
        pushInteger_def)
next
  case (Cons c r)
  have dr: "drop (pos p) (input p) = c # r" using assms(1) Cons by simp
  have dg: "\<not> isDigit (rune c)" using assms(2) Cons by simp
  have "c \<noteq> CHR ''_''" "c \<noteq> CHR ''.''" "c \<noteq> CHR ''e''" "c \<noteq> CHR ''E''"
    using assms(2) Cons by auto
  then have "rune c \<noteq> (rune CHR ''_'' :: nat)" "rune c \<noteq> (rune CHR ''.'' :: nat)"
    "rune c \<noteq> (rune CHR ''e'' :: nat)" "rune c \<noteq> (rune CHR ''E'' :: nat)"
    by (simp_all only: of_char_eq_iff not_False_eq_True)
  then have a: "rune c \<noteq> (95::nat)" "rune c \<noteq> (46::nat)" "rune c \<noteq> (101::nat)" "rune c \<noteq> (69::nat)"
    by simp_all
  have nd: "nat (int (pos p) - int m) = pos p - m" by arith
  have u: "unread (p\<lparr>pos := Suc (pos p), backups := [Suc 0]\<rparr>) = p\<lparr>backups := []\<rparr>"
    by (simp add: unread_def)
  have sl: "slice 0 (p\<lparr>backups := []\<rparr>)
              = (take (pos p - m) (drop m (input p)), p\<lparr>mark := - 1, backups := []\<rparr>)"
    using assms(3,4,5) by (simp add: slice_def Let_def nd)
  show ?thesis
    by (simp add: turn_def scanNumber_end [OF readByte_cleared [OF dr] dg a] u sl
        pushInteger_def)
qed

lemma number_tail:
  assumes "mark p = int m" and "pos p = m + length g"
    and "drop m (input p) = g @ concat (map ((#) CHR ''_'') gs) @ rest"
    and "list_all (\<lambda>h. h \<noteq> [] \<and> list_all (\<lambda>c. isDigit (rune c)) h) gs"
    and "rest = [] \<or> (\<not> isDigit (rune (hd rest)) \<and> hd rest \<notin> set ''_.eE'')"
    and "panicked p = None" and "g \<noteq> []"
  shows "drive L ScanNumber p =
           resume L (setIntegerValue
             (p\<lparr>mark := - 1, pos := m + length (g @ concat (map ((#) CHR ''_'') gs)),
                backups := [],
                num := (num p)\<lparr>integers := integers (num p) @ g # gs\<rparr>\<rparr>))"
  using assms
proof (induction gs arbitrary: p m g)
  case Nil
  have len: "m + length g \<le> length (input p)"
  proof -
    have "length (drop m (input p)) = length g + length rest" using Nil.prems(3) by simp
    then have "length (input p) - m = length g + length rest" by simp
    moreover have "0 < length g" using Nil.prems(7) by simp
    ultimately show ?thesis by arith
  qed
  have dr: "drop (pos p) (input p) = rest"
  proof -
    have "drop (pos p) (input p) = drop (length g) (drop m (input p))"
      using Nil.prems(2) by (simp add: add.commute)
    then show ?thesis using Nil.prems(3) by simp
  qed
  have tk: "take (length g) (drop m (input p)) = g" using Nil.prems(3) by simp
  have t: "turn L ScanNumber p =
           (case setIntegerValue
                   (p\<lparr>mark := - 1, backups := [],
                      num := (num p)\<lparr>integers := integers (num p) @ [g]\<rparr>\<rparr>) of
              (s1, p1) \<Rightarrow> if panicked p1 = None then (s1, p1) else (None, p1))"
    using turn_ScanNumber_end [OF dr Nil.prems(5) Nil.prems(1) _ _ Nil.prems(6), of L]
      Nil.prems(2) len by (simp add: tk)
  have e: "p\<lparr>mark := - 1, pos := m + length (g @ concat (map ((#) CHR ''_'') [])), backups := [],
             num := (num p)\<lparr>integers := integers (num p) @ [g]\<rparr>\<rparr>
         = p\<lparr>mark := - 1, backups := [], num := (num p)\<lparr>integers := integers (num p) @ [g]\<rparr>\<rparr>"
    using Nil.prems(2) by simp
  show ?case unfolding e by (rule drive_resume [OF t])
next
  case (Cons h hs)
  obtain c h' where h: "h = c # h'" using Cons.prems(4) by (cases h) auto
  have dc: "isDigit (rune c)" and dh': "list_all (\<lambda>c. isDigit (rune c)) h'"
    and dhs: "list_all (\<lambda>h. h \<noteq> [] \<and> list_all (\<lambda>c. isDigit (rune c)) h) hs"
    using Cons.prems(4) h by simp_all
  let ?tl = "concat (map ((#) CHR ''_'') hs) @ rest"
  have dm: "drop m (input p) = g @ CHR ''_'' # c # h' @ ?tl" using Cons.prems(3) h by simp
  have d0: "drop (pos p) (input p) = CHR ''_'' # c # h' @ ?tl"
  proof -
    have "drop (pos p) (input p) = drop (length g) (drop m (input p))"
      using Cons.prems(2) by (simp add: add.commute)
    then show ?thesis using dm by simp
  qed
  have tk: "take (length g) (drop m (input p)) = g" using dm by simp
  have d1: "drop (Suc (pos p)) (input p) = c # h' @ ?tl" by (rule drop_Cons_nth(3) [OF d0])
  have d2: "drop (Suc (Suc (pos p))) (input p) = h' @ ?tl" by (rule drop_Cons_nth(3) [OF d1])
  let ?n = "(num p)\<lparr>integers := integers (num p) @ [g]\<rparr>"
  let ?p1 = "p\<lparr>mark := - 1, pos := pos p + 1, backups := [1], num := ?n,
               scanners := ScanDigit # ScanNumber # scanners p\<rparr>"
  let ?p2 = "p\<lparr>mark := int (pos p + 1), pos := pos p + 1, backups := [], num := ?n,
               scanners := ScanNumber # scanners p\<rparr>"
  let ?p3 = "p\<lparr>mark := int (pos p + 1), pos := pos p + 2, backups := [1], num := ?n\<rparr>"
  let ?p4 = "p\<lparr>mark := int (pos p + 1), pos := pos p + 1 + length h, backups := [1], num := ?n\<rparr>"
  have s1: "drive L ScanNumber p = drive L (ScanRecord 0) ?p1"
    using turn_ScanNumber_underscore [OF d0 Cons.prems(6) Cons.prems(1), of L] Cons.prems(2)
    by (intro drive_step) (simp add: tk)
  have s2: "drive L (ScanRecord 0) ?p1 = drive L ScanDigit ?p2"
    using turn_ScanRecord0 [of ?p1 ScanDigit "ScanNumber # scanners p" L] Cons.prems(6)
    by (intro drive_step) simp
  have s3: "drive L ScanDigit ?p2 = drive L ScanNumber ?p3"
    using turn_ScanDigit_digit [of ?p2 c "h' @ ?tl" ScanNumber "scanners p" L] d1 dc Cons.prems(6)
    by (intro drive_step) simp
  have a4: "drive L ScanNumber ?p3 =
              drive L ScanNumber
                (if h' = [] then ?p3 else ?p3\<lparr>pos := pos ?p3 + length h', backups := [1]\<rparr>)"
    by (rule ScanNumber_digits [OF dh']) (use d2 Cons.prems(6) in simp_all)
  have b4: "(if h' = [] then ?p3 else ?p3\<lparr>pos := pos ?p3 + length h', backups := [1]\<rparr>) = ?p4"
    using h by simp
  have s4: "drive L ScanNumber ?p3 = drive L ScanNumber ?p4"
    using a4 unfolding b4 .
  have m4: "mark ?p4 = int (m + length g + 1)" using Cons.prems(2) by simp
  have q4: "pos ?p4 = (m + length g + 1) + length h" using Cons.prems(2) by simp
  have d4: "drop (m + length g + 1) (input ?p4) = h @ concat (map ((#) CHR ''_'') hs) @ rest"
  proof -
    have "drop (m + length g + 1) (input p) = drop (Suc (pos p)) (input p)"
      using Cons.prems(2) by simp
    then show ?thesis using d1 h by simp
  qed
  have pn4: "panicked ?p4 = None" using Cons.prems(6) by simp
  have ih: "drive L ScanNumber ?p4 =
           resume L (setIntegerValue
             (?p4\<lparr>mark := - 1, pos := (m + length g + 1) + length (h @ concat (map ((#) CHR ''_'') hs)),
                backups := [],
                num := (num ?p4)\<lparr>integers := integers (num ?p4) @ h # hs\<rparr>\<rparr>))"
    using Cons.prems(4) by (intro Cons.IH [OF m4 q4 d4 dhs Cons.prems(5) pn4]) simp
  have e: "?p4\<lparr>mark := - 1, pos := (m + length g + 1) + length (h @ concat (map ((#) CHR ''_'') hs)),
                backups := [],
                num := (num ?p4)\<lparr>integers := integers (num ?p4) @ h # hs\<rparr>\<rparr>
         = p\<lparr>mark := - 1, pos := m + length (g @ concat (map ((#) CHR ''_'') (h # hs))),
                backups := [],
                num := (num p)\<lparr>integers := integers (num p) @ g # h # hs\<rparr>\<rparr>"
    by simp
  show ?case unfolding s1 s2 s3 s4 ih e ..
qed

subsection \<open>From \<^verbatim>\<open>scanValue\<close> to \<^verbatim>\<open>numParser.Integer\<close>\<close>

text \<open>
  An integer literal is a first run \<open>g\<close> of digits and further runs \<open>gs\<close>, each after an
  underscore, with or without a sign before it. From any parser about to run
  \<^verbatim>\<open>scanValue\<close> on such a literal the loop reaches \<^verbatim>\<open>setIntegerValue\<close> with the cursor
  after the literal and exactly the runs in the accumulator, whatever follows the literal,
  if that cannot go on in a number.
\<close>

lemma scanValue_plus:
  assumes "readByte q = (43, q1)"
  shows "scanValue q = (Some ScanNumberStart, q1\<lparr>num := (num q1)\<lparr>sign := byte_string 43\<rparr>\<rparr>)"
  using assms by (simp add: scanValue_def)

lemma scanValue_minus:
  assumes "readByte q = (45, q1)"
  shows "scanValue q = (Some ScanNumberStart, q1\<lparr>num := (num q1)\<lparr>sign := byte_string 45\<rparr>\<rparr>)"
  using assms by (simp add: scanValue_def)

lemma turn_ScanValue_sign:
  assumes "drop (pos p) (input p) = c # r" and "c = CHR ''+'' \<or> c = CHR ''-''"
    and "panicked p = None"
  shows "turn L ScanValue p =
           (Some ScanNumberStart,
            p\<lparr>pos := pos p + 1, backups := [1], num := (num p)\<lparr>sign := [c]\<rparr>\<rparr>)"
  using assms(2)
proof
  assume c: "c = CHR ''+''"
  have rb: "readByte (clearBackups p) = (43, p\<lparr>pos := pos p + 1, backups := [1]\<rparr>)"
    using readByte_cleared [OF assms(1)] c by simp
  have bs: "byte_string 43 = ''+''" using byte_string_rune [of "CHR ''+''"] by simp
  show ?thesis using assms(3) c by (simp add: turn_def scanValue_plus [OF rb] bs)
next
  assume c: "c = CHR ''-''"
  have rb: "readByte (clearBackups p) = (45, p\<lparr>pos := pos p + 1, backups := [1]\<rparr>)"
    using readByte_cleared [OF assms(1)] c by simp
  have bs: "byte_string 45 = ''-''" using byte_string_rune [of "CHR ''-''"] by simp
  show ?thesis using assms(3) c by (simp add: turn_def scanValue_minus [OF rb] bs)
qed

lemma drop_add_append:
  assumes "drop m xs = ys @ zs"
  shows "drop (m + length ys) xs = zs"
proof -
  have "drop (m + length ys) xs = drop (length ys) (drop m xs)" by (simp add: add.commute)
  then show ?thesis using assms by simp
qed

lemma scan_unsigned_integer:
  assumes "drop (pos p) (input p) = g @ concat (map ((#) CHR ''_'') gs) @ rest"
    and "g \<noteq> []" and "list_all (\<lambda>c. isDigit (rune c)) g"
    and "list_all (\<lambda>h. h \<noteq> [] \<and> list_all (\<lambda>c. isDigit (rune c)) h) gs"
    and "rest = [] \<or> (\<not> isDigit (rune (hd rest)) \<and> hd rest \<notin> set ''_.eE-'')"
    and "panicked p = None"
  shows "drive L ScanValue p =
           resume L (setIntegerValue
             (p\<lparr>mark := - 1, pos := pos p + length (g @ concat (map ((#) CHR ''_'') gs)),
                backups := [],
                num := (num p)\<lparr>integers := integers (num p) @ g # gs\<rparr>\<rparr>))"
proof -
  obtain d0 ds where g: "g = d0 # ds" using assms(2) by (cases g) auto
  have dd0: "isDigit (rune d0)" and dds: "list_all (\<lambda>c. isDigit (rune c)) ds"
    using assms(3) g by simp_all
  let ?tl = "concat (map ((#) CHR ''_'') gs) @ rest"
  let ?p0 = "p\<lparr>mark := int (pos p), pos := pos p + 1, backups := [1]\<rparr>"
  let ?p1 = "p\<lparr>mark := int (pos p), pos := pos p + length g, backups := [1]\<rparr>"
  let ?p2 = "p\<lparr>mark := int (pos p), pos := pos p + length g, backups := []\<rparr>"
  have d: "drop (pos p) (input p) = d0 # ds @ ?tl" using assms(1) g by simp
  have s0: "drive L ScanValue p = drive L ScanNumberOrDate ?p0"
    by (rule drive_step [OF turn_ScanValue_digit [OF d dd0 assms(6)]])
  have d0: "drop (pos ?p0) (input ?p0) = ds @ ?tl" using drop_Cons_nth(3) [OF d] by simp
  have r1: "run_turns L (length ds) ScanNumberOrDate ?p0 =
              (Some ScanNumberOrDate,
               if ds = [] then ?p0 else ?p0\<lparr>pos := pos ?p0 + length ds, backups := [1]\<rparr>)"
    by (rule run_NOD_digits [OF dds d0]) (use assms(6) in simp)
  have e1: "(if ds = [] then ?p0 else ?p0\<lparr>pos := pos ?p0 + length ds, backups := [1]\<rparr>) = ?p1"
    using g by simp
  have s1: "drive L ScanNumberOrDate ?p0 = drive L ScanNumberOrDate ?p1"
    using drive_run_turns [of L ScanNumberOrDate ?p0 "length ds"] unfolding r1 e1 by simp
  have d1: "drop (pos ?p1) (input ?p1) = ?tl"
    using drop_add_append [of "pos p" "input p" g ?tl] assms(1) by simp
  have pn1: "panicked ?p1 = None" using assms(6) by simp
  have t2: "turn L ScanNumberOrDate ?p1 = (Some ScanNumber, ?p1\<lparr>backups := []\<rparr>)"
  proof (cases ?tl)
    case Nil
    show ?thesis by (rule turn_NOD_end [OF _ pn1]) (use d1 Nil in simp)
  next
    case (Cons c r)
    have dc: "drop (pos ?p1) (input ?p1) = c # r" using d1 Cons by simp
    have c: "\<not> isDigit (rune c) \<and> c \<noteq> CHR ''-''"
    proof (cases gs)
      case Nil
      then have "rest = c # r" using Cons by simp
      then show ?thesis using assms(5) by auto
    next
      case (Cons h hs)
      then have "c = CHR ''_''" using \<open>?tl = c # r\<close> by simp
      then show ?thesis by (simp add: isDigit_def)
    qed
    show ?thesis by (rule turn_NOD_other [OF dc _ _ pn1]) (use c in simp_all)
  qed
  have e2: "?p1\<lparr>backups := []\<rparr> = ?p2" by simp
  have s2: "drive L ScanNumberOrDate ?p1 = drive L ScanNumber ?p2"
    using drive_step [OF t2] unfolding e2 .
  have rc: "rest = [] \<or> (\<not> isDigit (rune (hd rest)) \<and> hd rest \<notin> set ''_.eE'')"
    using assms(5) by auto
  have s3: "drive L ScanNumber ?p2 =
           resume L (setIntegerValue
             (?p2\<lparr>mark := - 1, pos := pos p + length (g @ concat (map ((#) CHR ''_'') gs)),
                backups := [],
                num := (num ?p2)\<lparr>integers := integers (num ?p2) @ g # gs\<rparr>\<rparr>))"
    by (rule number_tail [OF _ _ _ assms(4) rc _ assms(2)]) (use assms(1,6) in simp_all)
  have e3: "?p2\<lparr>mark := - 1, pos := pos p + length (g @ concat (map ((#) CHR ''_'') gs)),
                backups := [],
                num := (num ?p2)\<lparr>integers := integers (num ?p2) @ g # gs\<rparr>\<rparr>
          = p\<lparr>mark := - 1, pos := pos p + length (g @ concat (map ((#) CHR ''_'') gs)),
                backups := [],
                num := (num p)\<lparr>integers := integers (num p) @ g # gs\<rparr>\<rparr>"
    by simp
  show ?thesis unfolding s0 s1 s2 s3 e3 ..
qed

lemma scan_signed_integer:
  assumes "drop (pos p) (input p) = c # g @ concat (map ((#) CHR ''_'') gs) @ rest"
    and "c = CHR ''+'' \<or> c = CHR ''-''"
    and "g \<noteq> []" and "list_all (\<lambda>c. isDigit (rune c)) g"
    and "list_all (\<lambda>h. h \<noteq> [] \<and> list_all (\<lambda>c. isDigit (rune c)) h) gs"
    and "rest = [] \<or> (\<not> isDigit (rune (hd rest)) \<and> hd rest \<notin> set ''_.eE-'')"
    and "panicked p = None"
  shows "drive L ScanValue p =
           resume L (setIntegerValue
             (p\<lparr>mark := - 1, pos := pos p + 1 + length (g @ concat (map ((#) CHR ''_'') gs)),
                backups := [],
                num := (num p)\<lparr>sign := [c], integers := integers (num p) @ g # gs\<rparr>\<rparr>))"
proof -
  obtain d0 ds where g: "g = d0 # ds" using assms(3) by (cases g) auto
  have dd0: "isDigit (rune d0)" and dds: "list_all (\<lambda>c. isDigit (rune c)) ds"
    using assms(4) g by simp_all
  let ?tl = "concat (map ((#) CHR ''_'') gs) @ rest"
  let ?n = "(num p)\<lparr>sign := [c]\<rparr>"
  let ?p0 = "p\<lparr>pos := pos p + 1, backups := [1], num := ?n\<rparr>"
  let ?p1 = "p\<lparr>pos := pos p + 1, backups := [], num := ?n,
               scanners := ScanDigit # ScanNumber # scanners p\<rparr>"
  let ?p2 = "p\<lparr>mark := int (pos p + 1), pos := pos p + 1, backups := [], num := ?n,
               scanners := ScanNumber # scanners p\<rparr>"
  let ?p3 = "p\<lparr>mark := int (pos p + 1), pos := pos p + 2, backups := [1], num := ?n\<rparr>"
  let ?p4 = "p\<lparr>mark := int (pos p + 1), pos := pos p + 1 + length g, backups := [1], num := ?n\<rparr>"
  have d: "drop (pos p) (input p) = c # d0 # ds @ ?tl" using assms(1) g by simp
  have d1: "drop (Suc (pos p)) (input p) = d0 # ds @ ?tl" by (rule drop_Cons_nth(3) [OF d])
  have d2: "drop (Suc (Suc (pos p))) (input p) = ds @ ?tl" by (rule drop_Cons_nth(3) [OF d1])
  have s0: "drive L ScanValue p = drive L ScanNumberStart ?p0"
    by (rule drive_step [OF turn_ScanValue_sign [OF d assms(2,7)]])
  have s1: "drive L ScanNumberStart ?p0 = drive L (ScanRecord 0) ?p1"
    using turn_ScanNumberStart [of ?p0 L] assms(7) by (intro drive_step) simp
  have s2: "drive L (ScanRecord 0) ?p1 = drive L ScanDigit ?p2"
    using turn_ScanRecord0 [of ?p1 ScanDigit "ScanNumber # scanners p" L] assms(7)
    by (intro drive_step) simp
  have s3: "drive L ScanDigit ?p2 = drive L ScanNumber ?p3"
    using turn_ScanDigit_digit [of ?p2 d0 "ds @ ?tl" ScanNumber "scanners p" L] d1 dd0 assms(7)
    by (intro drive_step) simp
  have a4: "drive L ScanNumber ?p3 =
              drive L ScanNumber
                (if ds = [] then ?p3 else ?p3\<lparr>pos := pos ?p3 + length ds, backups := [1]\<rparr>)"
    by (rule ScanNumber_digits [OF dds]) (use d2 assms(7) in simp_all)
  have b4: "(if ds = [] then ?p3 else ?p3\<lparr>pos := pos ?p3 + length ds, backups := [1]\<rparr>) = ?p4"
    using g by simp
  have s4: "drive L ScanNumber ?p3 = drive L ScanNumber ?p4"
    using a4 unfolding b4 .
  have rc: "rest = [] \<or> (\<not> isDigit (rune (hd rest)) \<and> hd rest \<notin> set ''_.eE'')"
    using assms(6) by auto
  have dm: "drop (pos p + 1) (input ?p4) = g @ concat (map ((#) CHR ''_'') gs) @ rest"
    using d1 g by simp
  have s5: "drive L ScanNumber ?p4 =
           resume L (setIntegerValue
             (?p4\<lparr>mark := - 1, pos := (pos p + 1) + length (g @ concat (map ((#) CHR ''_'') gs)),
                backups := [],
                num := (num ?p4)\<lparr>integers := integers (num ?p4) @ g # gs\<rparr>\<rparr>))"
    by (rule number_tail [OF _ _ dm assms(5) rc _ assms(3)]) (use assms(7) in simp_all)
  have e5: "?p4\<lparr>mark := - 1, pos := (pos p + 1) + length (g @ concat (map ((#) CHR ''_'') gs)),
                backups := [],
                num := (num ?p4)\<lparr>integers := integers (num ?p4) @ g # gs\<rparr>\<rparr>
          = p\<lparr>mark := - 1, pos := pos p + 1 + length (g @ concat (map ((#) CHR ''_'') gs)),
                backups := [],
                num := (num p)\<lparr>sign := [c], integers := integers (num p) @ g # gs\<rparr>\<rparr>"
    by simp
  show ?thesis unfolding s0 s1 s2 s3 s4 s5 e5 ..
qed

subsection \<open>Documents\<close>

lemma digits_concat:
  assumes "list_all P g" and "list_all (\<lambda>h. h \<noteq> [] \<and> list_all P h) gs"
  shows "list_all P (g @ concat gs)"
  using assms by (induction gs arbitrary: g) simp_all

lemma before_value:
  "drive L ScanTop (newParser (''x = '' @ lit)) =
   drive L ScanValue
     \<lparr>mark = - 1, pos = 4, line = 1, input = ''x = '' @ lit, backups = [1],
      root = Table False [], envs = [\<lparr>env = InRoot [], path = []\<rparr>], keys = [''x''],
      names = [], str = [],
      num = \<lparr>sign = [], exp_e = [], esign = [], integers = [], fractions = [], exponents = []\<rparr>,
      scanners = [ScanTopEnd], err = None, panicked = None\<rparr>"
proof -
  have "run_turns L 5 ScanTop (newParser (''x = '' @ lit)) =
    (Some ScanValue,
     \<lparr>mark = - 1, pos = 4, line = 1, input = ''x = '' @ lit, backups = [1],
      root = Table False [], envs = [\<lparr>env = InRoot [], path = []\<rparr>], keys = [''x''],
      names = [], str = [],
      num = \<lparr>sign = [], exp_e = [], esign = [], integers = [], fractions = [], exponents = []\<rparr>,
      scanners = [ScanTopEnd], err = None, panicked = None\<rparr>)"
    by (simp add: prims scans Let_def run_turns_numeral)
  then show ?thesis using drive_run_turns [of L ScanTop "newParser (''x = '' @ lit)" 5] by simp
qed

lemma after_integer:
  assumes "q = \<lparr>mark = - 1, pos = 4 + length lit, line = 1, input = ''x = '' @ lit, backups = [],
      root = Table False [], envs = [\<lparr>env = InRoot [], path = []\<rparr>], keys = [''x''],
      names = [], str = [],
      num = \<lparr>sign = [], exp_e = [], esign = [], integers = [], fractions = [], exponents = []\<rparr>,
      scanners = [ScanTopEnd], err = None, panicked = None\<rparr>"
  shows "map_option outcome (resume L (setValue (Integer i) q)) =
           Some (Inr (Table False [(''x'', Integer i)]))"
  unfolding assms
  by (simp add: prims scans drive.simps Let_def resume_def)

text \<open>
  Claim C5. An integer literal whose digit sequence, without the underscores and the
  sign, begins with \<^verbatim>\<open>0\<close> and is not the single digit \<^verbatim>\<open>0\<close> is an error of the parse; a
  digit sequence that is \<^verbatim>\<open>0\<close> or does not begin with \<^verbatim>\<open>0\<close> is not refused for a leading
  zero and is parsed as a signed 64-bit integer.

  Stated on \<^verbatim>\<open>parse\<close>, for the document \<^verbatim>\<open>x = \<close> followed by any literal \<open>lit\<close>: a sign
  \<open>sg\<close> that is empty, \<^verbatim>\<open>+\<close> or \<^verbatim>\<open>-\<close>, a non-empty run \<open>g\<close> of digits and any number of
  further non-empty runs \<open>gs\<close>, each after an underscore. With \<open>s\<close> the digits of the
  runs, the parse returns the leading-zero error exactly when \<open>s\<close> begins with \<^verbatim>\<open>0\<close> and
  is not \<^verbatim>\<open>0\<close>; otherwise it returns the table with the value of the digits under the
  sign when the value is in the range of \<^verbatim>\<open>int64\<close>, and the range error of
  \<^verbatim>\<open>strconv.ParseInt\<close> when it is not. Each error is on line 1, after the literal.
\<close>

theorem C5_integer_literal:
  assumes "sg = [] \<or> sg = ''+'' \<or> sg = ''-''"
    and "g \<noteq> []" and "list_all (\<lambda>c. isDigit (rune c)) g"
    and "list_all (\<lambda>h. h \<noteq> [] \<and> list_all (\<lambda>c. isDigit (rune c)) h) gs"
    and "lit = sg @ g @ concat (map ((#) CHR ''_'') gs)"
    and "s = concat (g # gs)"
  shows "parse L (''x = '' @ lit) =
     Some (if hd s = CHR ''0'' \<and> s \<noteq> ''0''
           then Inl (ParseError 1 (4 + length lit) (LeadingZero s))
           else if sg = ''-'' then
             (if dec_val s \<le> 2 ^ 63
              then Inr (Table False [(''x'', Integer (- int (dec_val s)))])
              else Inl (ParseError 1 (4 + length lit) (IntError ErrRange (sg @ s))))
           else
             (if dec_val s < 2 ^ 63
              then Inr (Table False [(''x'', Integer (int (dec_val s)))])
              else Inl (ParseError 1 (4 + length lit) (IntError ErrRange (sg @ s)))))"
proof -
  let ?e = "\<lparr>sign = [], exp_e = [], esign = [], integers = [], fractions = [], exponents = []\<rparr>"
  let ?p0 = "\<lparr>mark = - 1, pos = 4, line = 1, input = ''x = '' @ lit, backups = [1],
      root = Table False [], envs = [\<lparr>env = InRoot [], path = []\<rparr>], keys = [''x''],
      names = [], str = [], num = ?e,
      scanners = [ScanTopEnd], err = None, panicked = None\<rparr>"
  let ?n = "\<lparr>sign = sg, exp_e = [], esign = [], integers = g # gs, fractions = [], exponents = []\<rparr>"
  let ?q = "\<lparr>mark = - 1, pos = 4 + length lit, line = 1, input = ''x = '' @ lit, backups = [],
      root = Table False [], envs = [\<lparr>env = InRoot [], path = []\<rparr>], keys = [''x''],
      names = [], str = [], num = ?n,
      scanners = [ScanTopEnd], err = None, panicked = None\<rparr>"
  let ?q1 = "\<lparr>mark = - 1, pos = 4 + length lit, line = 1, input = ''x = '' @ lit, backups = [],
      root = Table False [], envs = [\<lparr>env = InRoot [], path = []\<rparr>], keys = [''x''],
      names = [], str = [], num = ?e,
      scanners = [ScanTopEnd], err = None, panicked = None\<rparr>"
  have rc: "[] = [] \<or> (\<not> isDigit (rune (hd [])) \<and> hd [] \<notin> set ''_.eE-'')" by simp
  have dr: "drive L ScanValue ?p0 = resume L (setIntegerValue ?q)"
    using assms(1)
  proof (elim disjE)
    assume sg: "sg = []"
    have d: "drop (pos ?p0) (input ?p0) = g @ concat (map ((#) CHR ''_'') gs) @ []"
      using assms(5) sg by simp
    have "drive L ScanValue ?p0 =
           resume L (setIntegerValue
             (?p0\<lparr>mark := - 1, pos := pos ?p0 + length (g @ concat (map ((#) CHR ''_'') gs)),
                backups := [],
                num := (num ?p0)\<lparr>integers := integers (num ?p0) @ g # gs\<rparr>\<rparr>))"
      by (rule scan_unsigned_integer [OF d assms(2,3,4) rc]) simp
    moreover have "?p0\<lparr>mark := - 1, pos := pos ?p0 + length (g @ concat (map ((#) CHR ''_'') gs)),
                backups := [],
                num := (num ?p0)\<lparr>integers := integers (num ?p0) @ g # gs\<rparr>\<rparr> = ?q"
      using assms(5) sg by simp
    ultimately show ?thesis by (simp only:)
  next
    assume sg: "sg = ''+''"
    have d: "drop (pos ?p0) (input ?p0) = CHR ''+'' # g @ concat (map ((#) CHR ''_'') gs) @ []"
      using assms(5) sg by simp
    have "drive L ScanValue ?p0 =
           resume L (setIntegerValue
             (?p0\<lparr>mark := - 1, pos := pos ?p0 + 1 + length (g @ concat (map ((#) CHR ''_'') gs)),
                backups := [],
                num := (num ?p0)\<lparr>sign := [CHR ''+''], integers := integers (num ?p0) @ g # gs\<rparr>\<rparr>))"
      by (rule scan_signed_integer [OF d _ assms(2,3,4) rc]) simp_all
    moreover have "?p0\<lparr>mark := - 1, pos := pos ?p0 + 1 + length (g @ concat (map ((#) CHR ''_'') gs)),
                backups := [],
                num := (num ?p0)\<lparr>sign := [CHR ''+''], integers := integers (num ?p0) @ g # gs\<rparr>\<rparr> = ?q"
      using assms(5) sg by simp
    ultimately show ?thesis by (simp only:)
  next
    assume sg: "sg = ''-''"
    have d: "drop (pos ?p0) (input ?p0) = CHR ''-'' # g @ concat (map ((#) CHR ''_'') gs) @ []"
      using assms(5) sg by simp
    have "drive L ScanValue ?p0 =
           resume L (setIntegerValue
             (?p0\<lparr>mark := - 1, pos := pos ?p0 + 1 + length (g @ concat (map ((#) CHR ''_'') gs)),
                backups := [],
                num := (num ?p0)\<lparr>sign := [CHR ''-''], integers := integers (num ?p0) @ g # gs\<rparr>\<rparr>))"
      by (rule scan_signed_integer [OF d _ assms(2,3,4) rc]) simp_all
    moreover have "?p0\<lparr>mark := - 1, pos := pos ?p0 + 1 + length (g @ concat (map ((#) CHR ''_'') gs)),
                backups := [],
                num := (num ?p0)\<lparr>sign := [CHR ''-''], integers := integers (num ?p0) @ g # gs\<rparr>\<rparr> = ?q"
      using assms(5) sg by simp
    ultimately show ?thesis by (simp only:)
  qed
  have sne: "s \<noteq> []" using assms(2,6) by simp
  have sd: "list_all (\<lambda>c. isDigit (rune c)) s"
    using digits_concat [OF assms(3,4)] assms(6) by simp
  have ni: "num_Integer ?n =
     (if hd s = CHR ''0'' \<and> s \<noteq> ''0'' then Inr (Inl (LeadingZero s))
      else if sg = ''-'' then
        (if dec_val s \<le> 2 ^ 63 then Inr (Inr (- int (dec_val s)))
         else Inr (Inl (IntError ErrRange (sg @ s))))
      else
        (if dec_val s < 2 ^ 63 then Inr (Inr (int (dec_val s)))
         else Inr (Inl (IntError ErrRange (sg @ s)))))"
    using num_Integer_digits [of s ?n] assms(1,6) sne sd by simp
  have siv: "setIntegerValue ?q =
     (case num_Integer ?n of
        Inl f \<Rightarrow> (None, raise f ?q)
      | Inr (Inl e) \<Rightarrow> (None, ?q1\<lparr>err := Some (ParseError 1 (4 + length lit) e)\<rparr>)
      | Inr (Inr i) \<Rightarrow> setValue (Integer i) ?q1)"
    by (simp add: setIntegerValue_def Let_def num_reset_def setError_def
        split: sum.splits)
  have p: "parse L (''x = '' @ lit) = map_option outcome (resume L (setIntegerValue ?q))"
    unfolding parse_def before_value dr ..
  have er: "\<And>e. map_option outcome
              (resume L (None, ?q1\<lparr>err := Some (ParseError 1 (4 + length lit) e)\<rparr>))
            = Some (Inl (ParseError 1 (4 + length lit) e))"
    by (simp add: resume_def outcome_def)
  have ok: "\<And>i. map_option outcome (resume L (setValue (Integer i) ?q1))
            = Some (Inr (Table False [(''x'', Integer i)]))"
    by (rule after_integer) simp
  have fin_err: "parse L (''x = '' @ lit) = Some (Inl (ParseError 1 (4 + length lit) e))"
    if a: "num_Integer ?n = Inr (Inl e)" for e
    unfolding p siv a by (simp only: sum.case er)
  have fin_ok: "parse L (''x = '' @ lit) = Some (Inr (Table False [(''x'', Integer i)]))"
    if a: "num_Integer ?n = Inr (Inr i)" for i
    unfolding p siv a by (simp only: sum.case ok)
  show ?thesis
  proof (cases "hd s = CHR ''0'' \<and> s \<noteq> ''0''")
    case True
    then have "num_Integer ?n = Inr (Inl (LeadingZero s))" using ni by simp
    from fin_err [OF this] True show ?thesis by simp
  next
    case lz: False
    show ?thesis
    proof (cases "sg = ''-''")
      case True
      show ?thesis
      proof (cases "dec_val s \<le> 2 ^ 63")
        case le: True
        have "num_Integer ?n = Inr (Inr (- int (dec_val s)))" using ni lz True le by simp
        from fin_ok [OF this] lz True le show ?thesis by simp
      next
        case gt: False
        have "num_Integer ?n = Inr (Inl (IntError ErrRange (sg @ s)))" using ni lz True gt by simp
        from fin_err [OF this] lz True gt show ?thesis by simp
      qed
    next
      case False
      show ?thesis
      proof (cases "dec_val s < 2 ^ 63")
        case le: True
        have "num_Integer ?n = Inr (Inr (int (dec_val s)))" using ni lz False le by simp
        from fin_ok [OF this] lz False le show ?thesis by simp
      next
        case gt: False
        have "num_Integer ?n = Inr (Inl (IntError ErrRange (sg @ s)))" using ni lz False gt by simp
        from fin_err [OF this] lz False gt show ?thesis by simp
      qed
    qed
  qed
qed

theorem C5_witness:
  "\<forall>L. parse L ''x = 0_1'' = Some (Inl (ParseError 1 7 (LeadingZero ''01'')))
     \<and> parse L ''x = -1_2'' = Some (Inr (Table False [(''x'', Integer (- 12))]))"
  using C5_integer_literal [of "[]" "''0''" "[''1'']" "''0_1''" "''01''"]
        C5_integer_literal [of "''-''" "''1''" "[''2'']" "''-1_2''" "''12''"]
  by (simp add: isDigit_def dec_val_def digit_val_def)

text \<open>Whole documents: the digit runs that reach \<^verbatim>\<open>numParser.Integer\<close> from the scanner.\<close>

lemma integer_zero: "parse L ''x = 0'' = Some (Inr (Table False [(''x'', Integer 0)]))"
  by (simp add: prims scans drive.simps Let_def)

lemma integer_leading_zero:
  "parse L ''x = 0123'' = Some (Inl (ParseError 1 8 (LeadingZero ''0123'')))"
  by (simp add: prims scans drive.simps Let_def)

lemma integer_leading_zero_underscore:
  "parse L ''x = 0_1'' = Some (Inl (ParseError 1 7 (LeadingZero ''01'')))"
  by (simp add: prims scans drive.simps Let_def)

lemma integer_signed_leading_zero:
  "parse L ''x = +01'' = Some (Inl (ParseError 1 7 (LeadingZero ''01'')))"
  by (simp add: prims scans drive.simps Let_def)

lemma integer_underscores:
  "parse L ''embed0 = 3_456'' = Some (Inr (Table False [(''embed0'', Integer 3456)]))"
  by (simp add: prims scans drive.simps Let_def)

lemma integer_out_of_range:
  "parse L ''x = 9223372036854775808'' =
     Some (Inl (ParseError 1 23 (IntError ErrRange ''9223372036854775808'')))"
  by (simp add: prims scans drive.simps Let_def)
end
